theory Spec2Isabelle
  imports
    Complex_Main
    "HOL-Library.AList"
    "HOL-Library.Char_ord"
    "HOL-Library.List_Lexorder"
    "HOL-Library.Log_Nat"
    "HOL-Library.Product_Lexorder"
begin

text \<open>
  A model of \<open>app.py\<close>, a dashboard that fetches prices of a few coins from a price
  API, labels each with a risk class, keeps the fetched rows in the session and charts
  them. Functions of the program keep their names. What the program takes from outside
  is a parameter of the model: the reply to the HTTP request, the clock, the widgets'
  values, and two built-ins of Python whose arithmetic is not modelled, \<open>float\<close> of a
  string and \<open>round\<close>. Exceptions are values: a function that may raise returns a
  sum, \<open>Inl\<close> the exception. A dictionary is the list of its items in insertion
  order.
\<close>

section \<open>Values of the program\<close>

subsection \<open>Python floats\<close>

text \<open>
  A Python \<open>float\<close> is a double: a finite number, one of the two infinities, or NaN.
  A finite double is given by the real number it stands for. The model does not say
  which reals are doubles, so what holds of every \<open>Num r\<close> holds of every finite
  double. The program applies four operations to floats: \<open>abs\<close> and the comparison
  with the integers 5 and 10, both exact on doubles and defined below; \<open>float\<close>,
  which rounds an integer to a double and is defined with the decoded JSON values; and
  \<open>round\<close>, which is a parameter of the snapshot. NaN compares false with
  everything, as in Python.
\<close>

datatype pyfloat = Num real | PosInf | NegInf | NaN

text \<open>\<open>abs(x)\<close>\<close>

fun fabs :: "pyfloat \<Rightarrow> pyfloat" where
  "fabs (Num r) = Num \<bar>r\<bar>"
| "fabs PosInf = PosInf"
| "fabs NegInf = PosInf"
| "fabs NaN = NaN"

text \<open>\<open>x >= y\<close>\<close>

fun fge :: "pyfloat \<Rightarrow> pyfloat \<Rightarrow> bool" where
  "fge NaN _ = False"
| "fge _ NaN = False"
| "fge PosInf _ = True"
| "fge _ NegInf = True"
| "fge (Num a) (Num b) = (b \<le> a)"
| "fge _ _ = False"

text \<open>\<open>x < y\<close>\<close>

fun flt :: "pyfloat \<Rightarrow> pyfloat \<Rightarrow> bool" where
  "flt NaN _ = False"
| "flt _ NaN = False"
| "flt PosInf _ = False"
| "flt _ NegInf = False"
| "flt (Num a) (Num b) = (a < b)"
| "flt _ _ = True"

subsection \<open>Exceptions\<close>

datatype exn = AttributeError | TypeError | ValueError | KeyError | OverflowError

subsection \<open>Decoded JSON\<close>

text \<open>
  What \<open>response.json()\<close> returns. An integer literal decodes to an \<open>int\<close>
  (\<open>JInt\<close>); a literal with a fraction or an exponent, and the literals \<open>NaN\<close>
  and \<open>Infinity\<close> that Python's decoder accepts, decode to a \<open>float\<close>
  (\<open>JNum\<close>). \<open>JObj\<close> is a \<open>dict\<close>: its items in insertion order, every
  key once.
\<close>

datatype json =
    JNull
  | JBool bool
  | JInt int
  | JNum pyfloat
  | JStr string
  | JArr "json list"
  | JObj "(string \<times> json) list"

text \<open>
  \<open>float(n)\<close> of an \<open>int\<close>. \<open>round_53\<close> rounds a magnitude to 53
  significant bits, ties to even: with \<open>s\<close> the number of bits beyond 53, the
  quotient by \<open>2 ^ s\<close> is kept and goes up by one where the remainder is more than
  half of \<open>2 ^ s\<close>, or is half of it and the quotient is odd. A result of
  \<open>2 ^ 1024\<close> or more is beyond the doubles: \<open>OverflowError\<close>.
\<close>

definition round_53 :: "int \<Rightarrow> int" where
  "round_53 n =
     (if bitlen n \<le> 53 then n
      else
        (let s = nat (bitlen n - 53);
             q = n div 2 ^ s;
             r = n mod 2 ^ s;
             h = 2 ^ (s - 1)
         in (if h < r \<or> (r = h \<and> odd q) then q + 1 else q) * 2 ^ s))"

definition float_of_int :: "int \<Rightarrow> exn + pyfloat" where
  "float_of_int n =
     (let m = round_53 \<bar>n\<bar>
      in if 2 ^ 1024 \<le> m then Inl OverflowError
         else Inr (Num (of_int (if n < 0 then - m else m))))"

text \<open>
  \<open>float(v)\<close>. A string is parsed by Python's own grammar for float literals, which
  is not part of this program: it is the parameter \<open>parse\<close>, \<open>None\<close> where
  \<open>float\<close> raises \<open>ValueError\<close>.
\<close>

fun py_float :: "(string \<Rightarrow> pyfloat option) \<Rightarrow> json \<Rightarrow> exn + pyfloat" where
  "py_float parse (JNum x) = Inr x"
| "py_float parse (JInt n) = float_of_int n"
| "py_float parse (JBool b) = Inr (Num (if b then 1 else 0))"
| "py_float parse (JStr s) = (case parse s of None \<Rightarrow> Inl ValueError | Some x \<Rightarrow> Inr x)"
| "py_float parse JNull = Inl TypeError"
| "py_float parse (JArr xs) = Inl TypeError"
| "py_float parse (JObj kvs) = Inl TypeError"

text \<open>\<open>sep.join(xs)\<close>\<close>

fun join :: "string \<Rightarrow> string list \<Rightarrow> string" where
  "join sep [] = []"
| "join sep [x] = x"
| "join sep (x # y # ys) = x @ sep @ join sep (y # ys)"

section \<open>Configuration\<close>

text \<open>Dictionaries are association lists in insertion order.\<close>

definition COINS :: "(string \<times> string) list" where
  "COINS =
    [(''Bitcoin (BTC)'', ''bitcoin''),
     (''Ethereum (ETH)'', ''ethereum''),
     (''Solana (SOL)'', ''solana''),
     (''Tether (USDT)'', ''tether''),
     (''BNB (BNB)'', ''binancecoin''),
     (''XRP (XRP)'', ''ripple'')]"

definition FIAT_CURRENCY :: string where
  "FIAT_CURRENCY = ''usd''"

definition API_URL :: string where
  "API_URL = ''https://api.coingecko.com/api/v3/simple/price''"

section \<open>Data model\<close>

text \<open>One value of the dictionary \<open>fetch_live_prices\<close> returns.\<close>

record info =
  price :: pyfloat
  change_24h :: pyfloat

type_synonym live_data = "(string \<times> info) list"

text \<open>
  One row of the history frame. \<open>timestamp\<close> is the naive UTC \<open>datetime\<close> of
  the fetch, counted in microseconds.
\<close>

record row =
  timestamp :: int
  coin_name :: string
  coin_id :: string
  row_price :: pyfloat
  row_change_24h :: pyfloat
  risk :: string

text \<open>One row of the snapshot frame of \<open>get_latest_snapshot_df\<close>.\<close>

record snapshot_row =
  Coin :: string
  Price_USD :: pyfloat
  Change_24h_pct :: pyfloat
  Risk_Level :: string

text \<open>
  The pivoted frame handed to \<open>st.line_chart\<close>: row labels, column labels and the
  matrix of cells, one inner list per row label.
\<close>

record chart =
  index :: "int list"
  columns :: "string list"
  cells :: "pyfloat list list"

text \<open>
  \<open>st.session_state\<close>, restricted to the two keys the program uses; \<open>None\<close> is
  a key that is not set.
\<close>

record session_state =
  history :: "row list option"
  last_live_data :: "live_data option"

text \<open>What the program shows, as far as it is modelled.\<close>

datatype ui =
    St_error string
  | St_success string
  | St_info string
  | St_line_chart chart

text \<open>The HTTP GET of \<open>fetch_live_prices\<close>.\<close>

record request =
  url :: string
  params :: "(string \<times> string) list"
  timeout :: nat

text \<open>
  What \<open>requests.get\<close> does with the request. It raises one of the library's
  \<open>RequestException\<close>s, a connection error, a timeout or another one (the string
  is \<open>str(e)\<close>), or it returns a response. Of the response the program uses the
  status code, through \<open>raise_for_status\<close>, and the body, through \<open>json\<close>:
  the body either decodes, or \<open>json\<close> raises the library's \<open>JSONDecodeError\<close>,
  which is a \<open>RequestException\<close> too (from version 2.27 of the library on). \<open>http_error_msg\<close> is the text that
  \<open>raise_for_status\<close> gives its \<open>HTTPError\<close>; the library builds it from the
  status, the reason phrase and the URL.
\<close>

datatype failure = ConnectionError | Timeout | OtherRequestException

datatype body = Undecodable string | Json json

record response =
  status_code :: nat
  http_error_msg :: string
  body :: body

datatype get_result = Raised failure string | Response response

record fetch_result =
  requests :: "request list"
  messages :: "ui list"
  returned :: "exn + live_data"

section \<open>Helper functions\<close>

subsection \<open>\<open>fetch_live_prices\<close>\<close>

text \<open>
  \<open>response.raise_for_status()\<close>: an \<open>HTTPError\<close> for a status from 400 to
  599, the client and the server errors, and nothing for any other status. The result
  is the text of the exception.
\<close>

definition raise_for_status :: "response \<Rightarrow> string option" where
  "raise_for_status r =
     (if 400 \<le> status_code r \<and> status_code r < 600 then Some (http_error_msg r) else None)"

text \<open>
  The \<open>try\<close> block with its \<open>except\<close> clause: \<open>Inl\<close> the text of the
  \<open>RequestException\<close> that was caught, \<open>Inr\<close> the decoded body \<open>raw\<close>.
\<close>

definition try_block :: "get_result \<Rightarrow> string + json" where
  "try_block g =
     (case g of
        Raised k e \<Rightarrow> Inl e
      | Response r \<Rightarrow>
          (case raise_for_status r of
             Some e \<Rightarrow> Inl e
           | None \<Rightarrow> (case body r of Undecodable e \<Rightarrow> Inl e | Json raw \<Rightarrow> Inr raw)))"

text \<open>\<open>info.get(key)\<close> and \<open>info.get(key, default)\<close> on a decoded object.\<close>

definition dict_get :: "(string \<times> json) list \<Rightarrow> string \<Rightarrow> json \<Rightarrow> json" where
  "dict_get d k dflt = (case map_of d k of None \<Rightarrow> dflt | Some v \<Rightarrow> v)"

text \<open>
  The body of the cleaning loop for one item. \<open>info.get\<close> raises
  \<open>AttributeError\<close> when the item's value \<open>info\<close> is no dictionary; \<open>None\<close> is the
  \<open>continue\<close>.
\<close>

definition clean_item :: "(string \<Rightarrow> pyfloat option) \<Rightarrow> json \<Rightarrow> exn + info option" where
  "clean_item parse entry =
     (case entry of
        JObj d \<Rightarrow>
          (let price = dict_get d FIAT_CURRENCY JNull;
               change = dict_get d (FIAT_CURRENCY @ ''_24h_change'') (JNum (Num 0))
           in if price = JNull then Inr None
              else
                (case py_float parse price of
                   Inl e \<Rightarrow> Inl e
                 | Inr p \<Rightarrow>
                     (case py_float parse change of
                        Inl e \<Rightarrow> Inl e
                      | Inr c \<Rightarrow> Inr (Some \<lparr>price = p, change_24h = c\<rparr>))))
      | _ \<Rightarrow> Inl AttributeError)"

text \<open>The loop \<open>for coin_id, info in raw.items()\<close>, with \<open>cleaned\<close> as it grows.\<close>

fun clean_loop ::
  "(string \<Rightarrow> pyfloat option) \<Rightarrow> (string \<times> json) list \<Rightarrow> live_data \<Rightarrow> exn + live_data"
where
  "clean_loop parse [] cleaned = Inr cleaned"
| "clean_loop parse ((cid, entry) # items) cleaned =
     (case clean_item parse entry of
        Inl e \<Rightarrow> Inl e
      | Inr None \<Rightarrow> clean_loop parse items cleaned
      | Inr (Some i) \<Rightarrow> clean_loop parse items (AList.update cid i cleaned))"

definition api_request :: "string list \<Rightarrow> request" where
  "api_request selected_coin_ids =
     \<lparr>url = API_URL,
      params =
        [(''ids'', join '','' selected_coin_ids),
         (''vs_currencies'', FIAT_CURRENCY),
         (''include_24hr_change'', ''true'')],
      timeout = 10\<rparr>"

text \<open>The cross mark U+274C that opens the error message, in UTF-8.\<close>

definition cross_mark :: string where
  "cross_mark = [char_of (226::nat), char_of (157::nat), char_of (140::nat)]"

text \<open>
  \<open>fetch_live_prices\<close>. \<open>api\<close> is the outside world: what \<open>requests.get\<close>
  does with a request. The result lists the requests sent and the messages shown
  besides the value returned (or the exception that leaves the function).
\<close>

definition fetch_live_prices ::
  "(string \<Rightarrow> pyfloat option) \<Rightarrow> (request \<Rightarrow> get_result) \<Rightarrow> string list \<Rightarrow> fetch_result"
where
  "fetch_live_prices parse api selected_coin_ids =
     (if selected_coin_ids = [] then
        \<lparr>requests = [], messages = [], returned = Inr []\<rparr>
      else
        (let req = api_request selected_coin_ids in
         case try_block (api req) of
           Inl e \<Rightarrow>
             \<lparr>requests = [req],
              messages = [St_error (cross_mark @ '' Error calling CoinGecko API: '' @ e)],
              returned = Inr []\<rparr>
         | Inr raw \<Rightarrow>
             \<lparr>requests = [req],
              messages = [],
              returned =
                (case raw of
                   JObj items \<Rightarrow> clean_loop parse items []
                 | _ \<Rightarrow> Inl AttributeError)\<rparr>))"

subsection \<open>\<open>classify_risk\<close>\<close>

definition classify_risk :: "pyfloat \<Rightarrow> string" where
  "classify_risk change =
     (let abs_change = fabs change in
      if fge abs_change (Num 10) then ''HIGH''
      else if fge abs_change (Num 5) then ''MEDIUM''
      else ''LOW'')"

subsection \<open>\<open>update_history\<close>\<close>

text \<open>\<open>{v: k for k, v in COINS.items()}\<close>\<close>

definition id_to_display :: "(string \<times> string) list" where
  "id_to_display = fold (\<lambda>(k, v) d. AList.update v k d) COINS []"

text \<open>\<open>id_to_display.get(coin_id, coin_id)\<close>\<close>

definition display_name :: "string \<Rightarrow> string" where
  "display_name cid = (case map_of id_to_display cid of None \<Rightarrow> cid | Some n \<Rightarrow> n)"

definition new_row :: "int \<Rightarrow> string \<times> info \<Rightarrow> row" where
  "new_row now item =
     (case item of (cid, i) \<Rightarrow>
        \<lparr>timestamp = now,
         coin_name = display_name cid,
         coin_id = cid,
         row_price = price i,
         row_change_24h = change_24h i,
         risk = classify_risk (change_24h i)\<rparr>)"

text \<open>
  \<open>update_history\<close>; \<open>now\<close> is what \<open>utcnow()\<close> returns. \<open>pd.concat\<close>
  with \<open>ignore_index=True\<close> puts the rows of the second frame after those of the
  first.
\<close>

definition update_history :: "int \<Rightarrow> live_data \<Rightarrow> session_state \<Rightarrow> session_state" where
  "update_history now data st =
     (let st1 = (case history st of None \<Rightarrow> st\<lparr>history := Some []\<rparr> | Some h \<Rightarrow> st);
          new_rows = map (new_row now) data
      in if new_rows \<noteq> [] then
           (case history st1 of
              None \<Rightarrow> st1
            | Some h \<Rightarrow> st1\<lparr>history := Some (h @ new_rows)\<rparr>)
         else st1)"

subsection \<open>\<open>get_latest_snapshot_df\<close>\<close>

text \<open>
  \<open>py_round\<close> is Python's \<open>round(x, ndigits)\<close> on floats, a parameter: the
  model does not compute the double it returns.
\<close>

definition snapshot_of :: "(pyfloat \<Rightarrow> nat \<Rightarrow> pyfloat) \<Rightarrow> string \<times> info \<Rightarrow> snapshot_row" where
  "snapshot_of py_round item =
     (case item of (cid, i) \<Rightarrow>
        \<lparr>Coin = display_name cid,
         Price_USD = py_round (price i) 4,
         Change_24h_pct = py_round (change_24h i) 2,
         Risk_Level = classify_risk (change_24h i)\<rparr>)"

definition get_latest_snapshot_df ::
  "(pyfloat \<Rightarrow> nat \<Rightarrow> pyfloat) \<Rightarrow> live_data \<Rightarrow> snapshot_row list"
where
  "get_latest_snapshot_df py_round data =
     (let rows = map (snapshot_of py_round) data in if rows = [] then [] else rows)"

section \<open>The page\<close>

subsection \<open>The frame operations of the price history chart\<close>

text \<open>\<open>history_df[history_df["coin_name"].isin(selected_coins_display)]\<close>\<close>

definition isin_filter :: "string list \<Rightarrow> row list \<Rightarrow> row list" where
  "isin_filter selected_coins_display history_df =
     filter (\<lambda>r. coin_name r \<in> set selected_coins_display) history_df"

text \<open>
  The aggregation \<open>"last"\<close> of a group, as the frame library computes it: the last
  entry that is not NaN, and NaN when the group has none.
\<close>

definition last_valid :: "pyfloat list \<Rightarrow> pyfloat" where
  "last_valid ps = fold (\<lambda>p acc. if p = NaN then acc else p) ps NaN"

text \<open>The prices of the rows of one group, in the order of the frame.\<close>

definition group_prices :: "row list \<Rightarrow> int \<times> string \<Rightarrow> pyfloat list" where
  "group_prices rows k =
     map row_price (filter (\<lambda>r. (timestamp r, coin_name r) = k) rows)"

text \<open>
  \<open>pivot_table(index="timestamp", columns="coin_name", values="price",
  aggfunc="last")\<close>, in the library's steps: group by the two keys with the groups
  sorted, aggregate every group, drop the groups whose aggregate is NaN, then unstack
  the coin names into sorted columns, with NaN in the cells that have no group.
\<close>

definition pivot_table :: "row list \<Rightarrow> chart" where
  "pivot_table rows =
     (let keys = sort (remdups (map (\<lambda>r. (timestamp r, coin_name r)) rows));
          agged = map (\<lambda>k. (k, last_valid (group_prices rows k))) keys;
          kept = filter (\<lambda>kv. snd kv \<noteq> NaN) agged;
          idx = remdups (map (\<lambda>kv. fst (fst kv)) kept);
          cols = sort (remdups (map (\<lambda>kv. snd (fst kv)) kept))
      in \<lparr>index = idx,
          columns = cols,
          cells =
            map (\<lambda>t. map (\<lambda>c. case map_of kept (t, c) of None \<Rightarrow> NaN | Some v \<Rightarrow> v) cols) idx\<rparr>)"

text \<open>\<open>sort_index()\<close>: the rows in ascending order of their label.\<close>

definition sort_index :: "chart \<Rightarrow> chart" where
  "sort_index df =
     (let rs = sort_key fst (zip (index df) (cells df))
      in df\<lparr>index := map fst rs, cells := map snd rs\<rparr>)"

subsection \<open>\<open>main\<close>\<close>

text \<open>
  One run of \<open>main\<close> is modelled in the parts that read or write the session
  state, call the API or draw the price history: the list of selected identifiers,
  the fetch button, the defaults of the session state and the price history section.
  The static texts, the snapshot cards and the raw table are left out.
\<close>

record run =
  state :: session_state
  sent :: "request list"
  shown :: "ui list"
  raised :: "exn option"

text \<open>\<open>[COINS[name] for name in selected_coins_display]\<close>\<close>

fun selected_ids :: "string list \<Rightarrow> exn + string list" where
  "selected_ids [] = Inr []"
| "selected_ids (name # names) =
     (case map_of COINS name of
        None \<Rightarrow> Inl KeyError
      | Some i \<Rightarrow> (case selected_ids names of Inl e \<Rightarrow> Inl e | Inr is \<Rightarrow> Inr (i # is)))"

text \<open>The check mark U+2705 that opens the success message, in UTF-8.\<close>

definition check_mark :: string where
  "check_mark = [char_of (226::nat), char_of (156::nat), char_of (133::nat)]"

text \<open>The body of \<open>if st.sidebar.button(...)\<close>.\<close>

definition fetch_button ::
  "(string \<Rightarrow> pyfloat option) \<Rightarrow> (request \<Rightarrow> get_result) \<Rightarrow> int \<Rightarrow> string list \<Rightarrow>
   session_state \<Rightarrow> run"
where
  "fetch_button parse api now ids st =
     (let r = fetch_live_prices parse api ids in
      case returned r of
        Inl e \<Rightarrow> \<lparr>state = st, sent = requests r, shown = messages r, raised = Some e\<rparr>
      | Inr data \<Rightarrow>
          if data \<noteq> [] then
            \<lparr>state = (update_history now data st)\<lparr>last_live_data := Some data\<rparr>,
             sent = requests r,
             shown = messages r @ [St_success (check_mark @ '' Data refreshed successfully!'')],
             raised = None\<rparr>
          else \<lparr>state = st, sent = requests r, shown = messages r, raised = None\<rparr>)"

text \<open>The two \<open>if ... not in st.session_state\<close> defaults.\<close>

definition init_session :: "session_state \<Rightarrow> session_state" where
  "init_session st =
     (let st1 = (case last_live_data st of None \<Rightarrow> st\<lparr>last_live_data := Some []\<rparr> | Some d \<Rightarrow> st)
      in case history st1 of None \<Rightarrow> st1\<lparr>history := Some []\<rparr> | Some h \<Rightarrow> st1)"

text \<open>The section "Price History (Current Session)".\<close>

definition price_history :: "string list \<Rightarrow> row list \<Rightarrow> ui list" where
  "price_history selected_coins_display history_df =
     (if history_df = [] then
        [St_info ''History will appear after fetching data multiple times.'']
      else
        (let filtered = isin_filter selected_coins_display history_df in
         if filtered = [] then [St_info ''No history found for selected coins.'']
         else [St_line_chart (sort_index (pivot_table filtered))]))"

text \<open>The rows of the history frame; a frame that is not set has none.\<close>

definition history_rows :: "session_state \<Rightarrow> row list" where
  "history_rows st = (case history st of None \<Rightarrow> [] | Some h \<Rightarrow> h)"

definition main ::
  "(string \<Rightarrow> pyfloat option) \<Rightarrow> (request \<Rightarrow> get_result) \<Rightarrow> int \<Rightarrow> string list \<Rightarrow> bool \<Rightarrow>
   session_state \<Rightarrow> run"
where
  "main parse api now selected_coins_display button st =
     (case selected_ids selected_coins_display of
        Inl e \<Rightarrow> \<lparr>state = st, sent = [], shown = [], raised = Some e\<rparr>
      | Inr ids \<Rightarrow>
          (let r =
                 (if button then fetch_button parse api now ids st
                  else \<lparr>state = st, sent = [], shown = [], raised = None\<rparr>)
           in case raised r of
                Some e \<Rightarrow> r
              | None \<Rightarrow>
                  (let st1 = init_session (state r)
                   in r\<lparr>state := st1,
                        shown := shown r @ price_history selected_coins_display (history_rows st1)\<rparr>)))"

text \<open>A series of fetches appended to the history, each with its time.\<close>

definition append_all :: "(int \<times> live_data) list \<Rightarrow> session_state \<Rightarrow> session_state" where
  "append_all fetches st = fold (\<lambda>f s. update_history (fst f) (snd f) s) fetches st"

section \<open>Notions used in the statements\<close>

text \<open>The last entry of a list of prices, NaN for the empty list.\<close>

definition last_recorded :: "pyfloat list \<Rightarrow> pyfloat" where
  "last_recorded ps = (if ps = [] then NaN else last ps)"

text \<open>The rows of a frame whose price is not NaN.\<close>

definition valid_rows :: "row list \<Rightarrow> row list" where
  "valid_rows rows = filter (\<lambda>r. row_price r \<noteq> NaN) rows"

text \<open>The sorted keys of the groups that the pivot keeps.\<close>

definition valid_keys :: "row list \<Rightarrow> (int \<times> string) list" where
  "valid_keys rows =
     filter (\<lambda>k. last_valid (group_prices rows k) \<noteq> NaN)
       (sort (remdups (map (\<lambda>r. (timestamp r, coin_name r)) rows)))"

text \<open>
  The price and the 24h change of one item of the API's response, where the item is an
  object that has the field.
\<close>

fun price_field :: "json \<Rightarrow> json option" where
  "price_field (JObj d) = map_of d FIAT_CURRENCY"
| "price_field v = None"

fun change_field :: "json \<Rightarrow> json option" where
  "change_field (JObj d) = map_of d (FIAT_CURRENCY @ ''_24h_change'')"
| "change_field v = None"

text \<open>
  An integer is in the range of the doubles when its magnitude is below
  \<open>2 ^ 1024 - 2 ^ 970\<close>, the least magnitude that rounds to \<open>2 ^ 1024\<close>.
\<close>

definition is_number :: "json option \<Rightarrow> bool" where
  "is_number f =
     (case f of
        Some (JNum x) \<Rightarrow> True
      | Some (JInt n) \<Rightarrow> \<bar>n\<bar> < 2 ^ 1024 - 2 ^ 970
      | _ \<Rightarrow> False)"

text \<open>
  An item of the shape the API documents: an object whose price, if it has one, is a
  number and whose 24h change, if it has one, is a number (an item with no price, or with
  the price \<open>null\<close>, may hold anything else).
\<close>

definition expected_entry :: "json \<Rightarrow> bool" where
  "expected_entry entry =
     (case entry of
        JObj d \<Rightarrow>
          price_field entry = None \<or> price_field entry = Some JNull \<or>
          (is_number (price_field entry) \<and>
           (change_field entry = None \<or> is_number (change_field entry)))
      | _ \<Rightarrow> False)"

text \<open>
  \<open>m\<close> is the magnitude \<open>n\<close> rounded to 53 significant bits, ties to even:
  with \<open>u\<close> the weight of the last of the 53 leading bits of \<open>n\<close>, \<open>m\<close> is a
  multiple of \<open>u\<close> at most half of \<open>u\<close> away from \<open>n\<close>, and an even
  multiple where it is exactly half of \<open>u\<close> away.
\<close>

definition nearest_53 :: "int \<Rightarrow> int \<Rightarrow> bool" where
  "nearest_53 n m =
     (let u = 2 ^ nat (bitlen n - 53)
      in u dvd m \<and> 2 * \<bar>m - n\<bar> \<le> u \<and> (2 * \<bar>m - n\<bar> = u \<longrightarrow> even (m div u)))"

text \<open>
  The float \<open>x\<close> is the JSON value converted to a float: a float is itself, an
  integer is the double nearest to it, \<open>true\<close> and \<open>false\<close> are 1.0 and 0.0, a
  string is what Python parses it to; nothing else converts.
\<close>

fun converted :: "(string \<Rightarrow> pyfloat option) \<Rightarrow> json \<Rightarrow> pyfloat \<Rightarrow> bool" where
  "converted parse (JNum y) x = (x = y)"
| "converted parse (JInt n) x =
     (\<exists>m. nearest_53 \<bar>n\<bar> m \<and> m < 2 ^ 1024 \<and> x = Num (of_int (if n < 0 then - m else m)))"
| "converted parse (JBool b) x = (x = Num (if b then 1 else 0))"
| "converted parse (JStr s) x = (parse s = Some x)"
| "converted parse v x = False"

text \<open>
  The API call failed: \<open>requests.get\<close> raised (a network error, a timeout), or the
  response has an HTTP error status, 400 to 599. \<open>failure_text\<close> is the text of the
  exception.
\<close>

fun call_failed :: "get_result \<Rightarrow> bool" where
  "call_failed (Raised k e) = True"
| "call_failed (Response r) = (400 \<le> status_code r \<and> status_code r < 600)"

fun failure_text :: "get_result \<Rightarrow> string" where
  "failure_text (Raised k e) = e"
| "failure_text (Response r) = http_error_msg r"

text \<open>Every row of the history carries the classification of its own 24h change.\<close>

definition labelled :: "row list \<Rightarrow> bool" where
  "labelled rows = list_all (\<lambda>r. risk r = classify_risk (row_change_24h r)) rows"

section \<open>Auxiliary facts\<close>

subsection \<open>The history\<close>

lemma history_rows_update:
  "history_rows (update_history now data st) = history_rows st @ map (new_row now) data"
  by (auto simp: update_history_def history_rows_def Let_def split: option.splits)

lemma last_live_data_update:
  "last_live_data (update_history now data st) = last_live_data st"
  by (auto simp: update_history_def Let_def split: option.splits)

lemma history_rows_append_all:
  "history_rows (append_all fetches st) =
     history_rows st @ concat (map (\<lambda>f. map (new_row (fst f)) (snd f)) fetches)"
  unfolding append_all_def
  by (induction fetches arbitrary: st) (simp_all add: history_rows_update)

lemma history_rows_init: "history_rows (init_session st) = history_rows st"
  by (simp add: init_session_def history_rows_def Let_def split: option.splits)

lemma history_rows_last_live_data:
  "history_rows (st\<lparr>last_live_data := d\<rparr>) = history_rows st"
  by (simp add: history_rows_def)

lemma history_rows_fetch_button:
  "\<exists>data. history_rows (state (fetch_button parse api now ids st)) =
      history_rows st @ map (new_row now) data"
proof (cases "returned (fetch_live_prices parse api ids)")
  case (Inl e)
  then have "state (fetch_button parse api now ids st) = st"
    by (simp add: fetch_button_def Let_def)
  then show ?thesis by (intro exI [of _ "[]"]) simp
next
  case (Inr data)
  then have "history_rows (state (fetch_button parse api now ids st)) =
      history_rows st @ map (new_row now) data"
    by (simp add: fetch_button_def Let_def history_rows_last_live_data history_rows_update)
  then show ?thesis ..
qed

lemma history_rows_main:
  "\<exists>data. history_rows (state (main parse api now selected button st)) =
      history_rows st @ map (new_row now) data"
proof (cases "selected_ids selected")
  case (Inl e)
  then have "state (main parse api now selected button st) = st"
    by (simp add: main_def)
  then show ?thesis by (intro exI [of _ "[]"]) simp
next
  case (Inr ids)
  show ?thesis
  proof (cases button)
    case True
    obtain data where d: "history_rows (state (fetch_button parse api now ids st)) =
        history_rows st @ map (new_row now) data"
      using history_rows_fetch_button by blast
    have "history_rows (state (main parse api now selected button st)) =
        history_rows (state (fetch_button parse api now ids st))"
      using Inr True
      by (cases "raised (fetch_button parse api now ids st)")
         (simp_all add: main_def Let_def history_rows_init)
    with d show ?thesis by auto
  next
    case False
    with Inr have "history_rows (state (main parse api now selected button st)) = history_rows st"
      by (simp add: main_def Let_def history_rows_init)
    then show ?thesis by (intro exI [of _ "[]"]) simp
  qed
qed

lemma labelled_append: "labelled (xs @ ys) \<longleftrightarrow> labelled xs \<and> labelled ys"
  by (simp add: labelled_def)

lemma labelled_new_rows: "labelled (map (new_row now) data)"
  by (induction data) (auto simp: labelled_def new_row_def)

lemma id_to_display_eq:
  "id_to_display =
     [(''bitcoin'', ''Bitcoin (BTC)''),
      (''ethereum'', ''Ethereum (ETH)''),
      (''solana'', ''Solana (SOL)''),
      (''tether'', ''Tether (USDT)''),
      (''binancecoin'', ''BNB (BNB)''),
      (''ripple'', ''XRP (XRP)'')]"
  by (simp add: id_to_display_def COINS_def)

subsection \<open>The cleaning loop\<close>

lemma update_fresh: "k \<notin> fst ` set al \<Longrightarrow> AList.update k v al = al @ [(k, v)]"
  by (induction al) auto

lemma round_53_small: "bitlen n \<le> 53 \<Longrightarrow> round_53 n = n"
  by (simp add: round_53_def)

lemma nearest_53_round_53: "nearest_53 n (round_53 n)"
proof (cases "bitlen n \<le> 53")
  case True
  then show ?thesis by (simp add: round_53_def nearest_53_def)
next
  case False
  define s where "s = nat (bitlen n - 53)"
  define u :: int where "u = 2 ^ s"
  define h :: int where "h = 2 ^ (s - 1)"
  define q where "q = n div u"
  define r where "r = n mod u"
  from False have s: "0 < s" by (simp add: s_def)
  then have uh: "u = 2 * h"
    by (cases s) (simp_all add: u_def h_def)
  have u0: "0 < u" by (simp add: u_def)
  have n: "n = q * u + r" by (simp add: q_def r_def)
  have r: "0 \<le> r" "r < u" using u0 by (simp_all add: r_def)
  have m: "round_53 n = (if h < r \<or> (r = h \<and> odd q) then q + 1 else q) * u"
    using False by (simp add: round_53_def Let_def s_def u_def h_def q_def r_def)
  have d1: "(q * u) div u = q" and d2: "((q + 1) * u) div u = q + 1"
    using u0 by simp_all
  show ?thesis
  proof (cases "h < r \<or> (r = h \<and> odd q)")
    case True
    with m have e: "round_53 n = (q + 1) * u" by simp
    have "\<bar>(q + 1) * u - n\<bar> = u - r" using n r by (simp add: algebra_simps)
    moreover have "2 * (u - r) \<le> u" using True uh by auto
    moreover have "even (q + 1)" if "2 * (u - r) = u" using True uh that by auto
    ultimately show ?thesis
      unfolding nearest_53_def Let_def s_def [symmetric] u_def [symmetric] e d2
      using u0 by simp
  next
    case False
    with m have e: "round_53 n = q * u" by simp
    have "\<bar>q * u - n\<bar> = r" using n r by (simp add: algebra_simps)
    moreover have "2 * r \<le> u" using False uh by auto
    moreover have "even q" if "2 * r = u" using False uh that by auto
    ultimately show ?thesis
      unfolding nearest_53_def Let_def s_def [symmetric] u_def [symmetric] e d1
      using u0 by simp
  qed
qed

lemma nearest_53_unique:
  assumes "nearest_53 n m" and "nearest_53 n m'"
  shows "m = m'"
proof (rule ccontr)
  assume ne: "m \<noteq> m'"
  define u :: int where "u = 2 ^ nat (bitlen n - 53)"
  have u0: "0 < u" by (simp add: u_def)
  from assms have a: "u dvd m" "2 * \<bar>m - n\<bar> \<le> u" "2 * \<bar>m - n\<bar> = u \<longrightarrow> even (m div u)"
    and b: "u dvd m'" "2 * \<bar>m' - n\<bar> \<le> u" "2 * \<bar>m' - n\<bar> = u \<longrightarrow> even (m' div u)"
    by (simp_all add: nearest_53_def Let_def u_def)
  from a(1) b(1) obtain k k' where k: "m = u * k" "m' = u * k'" by (auto elim!: dvdE)
  with ne have "k \<noteq> k'" by auto
  then have "1 \<le> \<bar>k - k'\<bar>" by simp
  then have "u * 1 \<le> u * \<bar>k - k'\<bar>" using u0 by (intro mult_left_mono) simp_all
  also have "u * \<bar>k - k'\<bar> = \<bar>m - m'\<bar>"
    using k u0 by (simp add: abs_mult right_diff_distrib [symmetric])
  finally have far: "u \<le> \<bar>m - m'\<bar>" by simp
  define A B C where "A = \<bar>m - n\<bar>" and "B = \<bar>m' - n\<bar>" and "C = \<bar>m - m'\<bar>"
  have tri: "C \<le> A + B"
    unfolding A_def B_def C_def
    by (rule abs_triangle_ineq4 [of "m - n" "m' - n", simplified])
  have ab: "2 * A \<le> u" "2 * B \<le> u" "u \<le> C"
    using a(2) b(2) far by (simp_all add: A_def B_def C_def)
  from tri ab have "2 * A = u" "2 * B = u" "C = u" by linarith+
  then have t1: "2 * \<bar>m - n\<bar> = u" and t2: "2 * \<bar>m' - n\<bar> = u" and t3: "\<bar>m - m'\<bar> = u"
    by (simp_all add: A_def B_def C_def)
  from t1 t2 a(3) b(3) have ev: "even (m div u)" "even (m' div u)" by simp_all
  from k u0 have "m div u = k" "m' div u = k'" by simp_all
  with ev have "even k" "even k'" by simp_all
  then have "even \<bar>k - k'\<bar>" by simp
  moreover from t3 k u0 have "u * \<bar>k - k'\<bar> = u * 1"
    by (simp add: right_diff_distrib [symmetric] abs_mult)
  then have "\<bar>k - k'\<bar> = 1" using u0 by simp
  ultimately show False by simp
qed

lemma round_53_in_range:
  assumes "0 \<le> n" and "n < 2 ^ 1024 - 2 ^ 970"
  shows "round_53 n < 2 ^ 1024"
proof -
  define u :: int where "u = 2 ^ nat (bitlen n - 53)"
  define D where "D = \<bar>round_53 n - n\<bar>"
  from assms(2) have "n < 2 ^ nat 1024" by simp
  then have "bitlen n \<le> 1024"
    by (simp add: bitlen_le_iff_power)
  then have "nat (bitlen n - 53) \<le> 971" by simp
  then have "u \<le> 2 ^ 971"
    unfolding u_def by (intro power_increasing) simp_all
  moreover from nearest_53_round_53 [of n] have "2 * D \<le> u"
    by (simp add: nearest_53_def Let_def u_def D_def)
  moreover have "round_53 n - n \<le> D" by (simp add: D_def)
  moreover have "(2::int) ^ 971 = 2 * 2 ^ 970" by simp
  ultimately show ?thesis using assms(2) by linarith
qed

lemma round_53_overflow:
  assumes "2 ^ 1024 \<le> n"
  shows "2 ^ 1024 \<le> round_53 n"
proof -
  have "(0::int) < 2 ^ 1024" by simp
  with assms have pos: "0 < n" by linarith
  from bitlen_bounds [OF pos]
  have lo: "2 ^ nat (bitlen n - 1) \<le> n" and hi: "n < 2 ^ nat (bitlen n)"
    by simp_all
  from assms hi have p: "(2::int) ^ 1024 < 2 ^ nat (bitlen n)" by linarith
  have b: "1024 < nat (bitlen n)"
    by (rule power_less_imp_less_exp [OF _ p]) simp
  define s where "s = nat (bitlen n - 53)"
  from b have bs: "nat (bitlen n - 1) = 52 + s" and big: "\<not> bitlen n \<le> 53"
    by (simp_all add: s_def)
  have "(2::int) ^ 52 = (2 ^ 52 * 2 ^ s) div 2 ^ s" by simp
  also have "\<dots> \<le> n div 2 ^ s"
    using lo unfolding bs power_add by (intro zdiv_mono1) simp_all
  finally have q: "2 ^ 52 \<le> n div 2 ^ s" .
  have "(2::int) ^ 1024 \<le> 2 ^ (52 + s)"
    using b bs by (intro power_increasing) simp_all
  also have "\<dots> = 2 ^ 52 * 2 ^ s" by (simp add: power_add)
  also have "\<dots> \<le> (n div 2 ^ s) * 2 ^ s"
    using q by (intro mult_right_mono) simp_all
  also have "\<dots> \<le> round_53 n"
    using big by (simp add: round_53_def Let_def s_def [symmetric] mult_right_mono)
  finally show ?thesis .
qed

lemma float_of_int_overflow:
  assumes "2 ^ 1024 \<le> \<bar>n\<bar>"
  shows "float_of_int n = Inl OverflowError"
proof -
  from assms have "2 ^ 1024 \<le> round_53 \<bar>n\<bar>" by (rule round_53_overflow)
  then show ?thesis
    unfolding float_of_int_def Let_def by simp
qed

lemma float_of_int_small: "\<bar>n\<bar> < 2 ^ 53 \<Longrightarrow> float_of_int n = Inr (Num (of_int n))"
proof -
  assume a: "\<bar>n\<bar> < 2 ^ 53"
  then have "\<bar>n\<bar> < 2 ^ nat 53" by simp
  then have "bitlen \<bar>n\<bar> \<le> 53" by (simp add: bitlen_le_iff_power)
  then have r: "round_53 \<bar>n\<bar> = \<bar>n\<bar>" by (rule round_53_small)
  have "(2::int) ^ 53 \<le> 2 ^ 1024" by simp
  with a have "\<not> 2 ^ 1024 \<le> \<bar>n\<bar>" by linarith
  with r show ?thesis by (simp add: float_of_int_def Let_def)
qed

lemma float_of_int_converted:
  "float_of_int n = Inr x \<longleftrightarrow> converted parse (JInt n) x"
proof
  assume "float_of_int n = Inr x"
  then have "round_53 \<bar>n\<bar> < 2 ^ 1024"
    and "x = Num (of_int (if n < 0 then - round_53 \<bar>n\<bar> else round_53 \<bar>n\<bar>))"
    by (auto simp: float_of_int_def Let_def split: if_splits)
  with nearest_53_round_53 [of "\<bar>n\<bar>"] show "converted parse (JInt n) x"
    by auto
next
  assume "converted parse (JInt n) x"
  then obtain m where m: "nearest_53 \<bar>n\<bar> m" "m < 2 ^ 1024"
    "x = Num (of_int (if n < 0 then - m else m))"
    by auto
  from m(1) nearest_53_round_53 [of "\<bar>n\<bar>"] have "m = round_53 \<bar>n\<bar>"
    by (rule nearest_53_unique)
  with m(2,3) show "float_of_int n = Inr x"
    by (simp add: float_of_int_def Let_def)
qed

lemma py_float_converted: "py_float parse v = Inr x \<longleftrightarrow> converted parse v x"
proof (cases v)
  case (JInt n)
  show ?thesis
    unfolding JInt py_float.simps by (rule float_of_int_converted)
qed (auto split: option.splits)

lemma py_float_number:
  "is_number (Some v) \<Longrightarrow> \<exists>x. py_float parse v = Inr x"
proof (cases v)
  case (JInt n)
  assume "is_number (Some v)"
  with JInt have "\<bar>n\<bar> < 2 ^ 1024 - 2 ^ 970" by (simp add: is_number_def)
  then have "round_53 \<bar>n\<bar> < 2 ^ 1024" by (intro round_53_in_range) simp_all
  with JInt show ?thesis by (simp add: float_of_int_def Let_def)
qed (simp_all add: is_number_def)

lemma clean_item_None:
  "clean_item parse entry = Inr None \<longleftrightarrow>
     (\<exists>d. entry = JObj d) \<and> (price_field entry = None \<or> price_field entry = Some JNull)"
  by (cases entry)
     (auto simp: clean_item_def dict_get_def Let_def split: option.splits sum.splits)

lemma clean_item_Some:
  "clean_item parse entry = Inr (Some i) \<longleftrightarrow>
     (\<exists>p. price_field entry = Some p \<and> converted parse p (price i) \<and>
        (case change_field entry of
           None \<Rightarrow> change_24h i = Num 0
         | Some c \<Rightarrow> converted parse c (change_24h i)))"
proof (cases entry)
  case (JObj d)
  have n: "\<not> converted parse JNull y" for y by simp
  show ?thesis
    unfolding JObj clean_item_def dict_get_def Let_def py_float_converted [symmetric]
    by (auto split: option.splits sum.splits)
qed (simp_all add: clean_item_def)

lemma clean_item_expected:
  "expected_entry entry \<Longrightarrow> \<exists>r. clean_item parse entry = Inr r"
proof (cases entry)
  case (JObj d)
  assume e: "expected_entry entry"
  show ?thesis
  proof (cases "price_field entry = None \<or> price_field entry = Some JNull")
    case True
    then show ?thesis
      using JObj by (auto simp: clean_item_def dict_get_def Let_def)
  next
    case False
    with e JObj have p: "is_number (map_of d FIAT_CURRENCY)"
      and c: "map_of d (FIAT_CURRENCY @ ''_24h_change'') = None \<or>
              is_number (map_of d (FIAT_CURRENCY @ ''_24h_change''))"
      by (auto simp: expected_entry_def)
    from p obtain v where v: "map_of d FIAT_CURRENCY = Some v" "v \<noteq> JNull"
      by (cases "map_of d FIAT_CURRENCY") (auto simp: is_number_def split: json.splits)
    with p obtain x where x: "py_float parse v = Inr x"
      using py_float_number by fastforce
    have "\<exists>y. py_float parse (dict_get d (FIAT_CURRENCY @ ''_24h_change'') (JNum (Num 0))) = Inr y"
    proof (cases "map_of d (FIAT_CURRENCY @ ''_24h_change'')")
      case None
      then show ?thesis by (simp add: dict_get_def)
    next
      case (Some w)
      with c have "is_number (Some w)" by simp
      then obtain y where "py_float parse w = Inr y"
        using py_float_number by blast
      with Some show ?thesis by (simp add: dict_get_def)
    qed
    then obtain y where
      y: "py_float parse (dict_get d (FIAT_CURRENCY @ ''_24h_change'') (JNum (Num 0))) = Inr y" ..
    from v x y JObj show ?thesis
      by (simp add: clean_item_def dict_get_def Let_def)
  qed
qed (simp_all add: expected_entry_def)

lemma clean_loop_returns:
  "\<forall>it\<in>set items. expected_entry (snd it) \<Longrightarrow> \<exists>c. clean_loop parse items acc = Inr c"
proof (induction items arbitrary: acc)
  case Nil
  then show ?case by simp
next
  case (Cons it items)
  obtain cid entry where it: "it = (cid, entry)" by (cases it)
  from Cons.prems it obtain r where "clean_item parse entry = Inr r"
    using clean_item_expected by fastforce
  with Cons it show ?case by (cases r) auto
qed

lemma clean_loop_result:
  assumes "distinct (map fst items)"
    and "fst ` set acc \<inter> fst ` set items = {}"
    and "clean_loop parse items acc = Inr cleaned"
  shows "\<exists>xs. cleaned = acc @ xs \<and>
           map fst xs = map fst (filter (\<lambda>it. price_field (snd it) \<notin> {None, Some JNull}) items) \<and>
           (\<forall>x\<in>set xs. \<exists>entry. (fst x, entry) \<in> set items \<and>
               clean_item parse entry = Inr (Some (snd x)))"
  using assms
proof (induction items arbitrary: acc)
  case Nil
  then show ?case by simp
next
  case (Cons it items)
  obtain cid entry where it: "it = (cid, entry)" by (cases it)
  from Cons.prems(3) it obtain r where r: "clean_item parse entry = Inr r"
    by (cases "clean_item parse entry") auto
  have d: "distinct (map fst items)" using Cons.prems(1) by simp
  show ?case
  proof (cases r)
    case None
    with r it Cons.prems have "clean_loop parse items acc = Inr cleaned" by simp
    moreover have "fst ` set acc \<inter> fst ` set items = {}" using Cons.prems(2) by auto
    ultimately obtain xs where xs: "cleaned = acc @ xs"
      "map fst xs = map fst (filter (\<lambda>it. price_field (snd it) \<notin> {None, Some JNull}) items)"
      "\<forall>x\<in>set xs. \<exists>entry. (fst x, entry) \<in> set items \<and>
          clean_item parse entry = Inr (Some (snd x))"
      using Cons.IH d by blast
    from r None have "price_field entry = None \<or> price_field entry = Some JNull"
      by (simp add: clean_item_None)
    with xs it show ?thesis by auto
  next
    case (Some i)
    have "cid \<notin> fst ` set acc" using Cons.prems(2) it by auto
    with r Some it Cons.prems have "clean_loop parse items (acc @ [(cid, i)]) = Inr cleaned"
      by (simp add: update_fresh)
    moreover have "fst ` set (acc @ [(cid, i)]) \<inter> fst ` set items = {}"
      using Cons.prems(1,2) it by auto
    ultimately obtain xs where xs: "cleaned = (acc @ [(cid, i)]) @ xs"
      "map fst xs = map fst (filter (\<lambda>it. price_field (snd it) \<notin> {None, Some JNull}) items)"
      "\<forall>x\<in>set xs. \<exists>entry. (fst x, entry) \<in> set items \<and>
          clean_item parse entry = Inr (Some (snd x))"
      using Cons.IH d by blast
    from r Some have "price_field entry \<notin> {None, Some JNull}"
      by (auto simp: clean_item_Some)
    with xs it r Some show ?thesis
      by (intro exI [of _ "(cid, i) # xs"]) auto
  qed
qed

subsection \<open>The pivot\<close>

lemma last_valid_filter:
  "last_valid ps = last_recorded (filter (\<lambda>p. p \<noteq> NaN) ps)"
  by (induction ps rule: rev_induct) (simp_all add: last_valid_def last_recorded_def)

lemma last_valid_NaN_iff: "last_valid ps = NaN \<longleftrightarrow> (\<forall>p\<in>set ps. p = NaN)"
proof -
  have "filter (\<lambda>p. p \<noteq> NaN) ps \<noteq> [] \<Longrightarrow> last (filter (\<lambda>p. p \<noteq> NaN) ps) \<noteq> NaN"
    using last_in_set [of "filter (\<lambda>p. p \<noteq> NaN) ps"] by auto
  then show ?thesis
    by (auto simp: last_valid_filter last_recorded_def filter_empty_conv)
qed

lemma group_prices_valid:
  "filter (\<lambda>p. p \<noteq> NaN) (group_prices rows k) = group_prices (valid_rows rows) k"
  by (induction rows) (auto simp: group_prices_def valid_rows_def)

lemma last_valid_group:
  "last_valid (group_prices rows k) = last_recorded (group_prices (valid_rows rows) k)"
  by (simp add: last_valid_filter group_prices_valid)

lemma group_valid_iff:
  "last_valid (group_prices rows k) \<noteq> NaN \<longleftrightarrow>
     (\<exists>r\<in>set (valid_rows rows). (timestamp r, coin_name r) = k)"
  by (auto simp: last_valid_NaN_iff group_prices_def valid_rows_def)

lemma sorted_fst: "sorted (ks :: (int \<times> string) list) \<Longrightarrow> sorted (map fst ks)"
  by (induction ks) (auto simp: less_eq_prod_def)

lemma kept_keys:
  "map fst (filter (\<lambda>kv. snd kv \<noteq> NaN) (map (\<lambda>k. (k, f k)) ks)) = filter (\<lambda>k. f k \<noteq> NaN) ks"
  by (induction ks) auto

lemma map_of_kept:
  "map_of (filter (\<lambda>kv. snd kv \<noteq> NaN) (map (\<lambda>k. (k, f k)) ks)) k =
     (if k \<in> set ks \<and> f k \<noteq> NaN then Some (f k) else None)"
  by (induction ks) auto

lemma sort_index_sorted:
  "sorted (index df) \<Longrightarrow> length (cells df) = length (index df) \<Longrightarrow> sort_index df = df"
  by (simp add: sort_index_def Let_def sort_key_id_if_sorted)

lemma set_valid_keys:
  "set (valid_keys rows) = (\<lambda>r. (timestamp r, coin_name r)) ` set (valid_rows rows)"
proof -
  have "k \<in> set (valid_keys rows) \<longleftrightarrow>
        k \<in> (\<lambda>r. (timestamp r, coin_name r)) ` set (valid_rows rows)" for k
    unfolding valid_keys_def set_filter mem_Collect_eq group_valid_iff
    by (fastforce simp: valid_rows_def image_iff)
  then show ?thesis by blast
qed

lemma sorted_valid_keys: "sorted (valid_keys rows)"
  unfolding valid_keys_def by (rule sorted_wrt_filter) simp

lemma cell_lookup:
  "(case map_of (filter (\<lambda>kv. snd kv \<noteq> NaN)
        (map (\<lambda>k. (k, last_valid (group_prices rows k)))
          (sort (remdups (map (\<lambda>r. (timestamp r, coin_name r)) rows))))) k of
      None \<Rightarrow> NaN | Some v \<Rightarrow> v) = last_valid (group_prices rows k)"
proof (cases "k \<in> (\<lambda>r. (timestamp r, coin_name r)) ` set rows")
  case True
  then show ?thesis by (simp add: map_of_kept)
next
  case False
  then have "group_prices rows k = []"
    by (auto simp: group_prices_def filter_empty_conv)
  then show ?thesis by (simp add: map_of_kept last_valid_def)
qed

lemma pivot_table_eq:
  "pivot_table rows =
     \<lparr>index = remdups (map fst (valid_keys rows)),
      columns = sort (remdups (map snd (valid_keys rows))),
      cells =
        map (\<lambda>t. map (\<lambda>c. last_valid (group_prices rows (t, c)))
                  (sort (remdups (map snd (valid_keys rows)))))
          (remdups (map fst (valid_keys rows)))\<rparr>"
proof -
  have k: "map fst (filter (\<lambda>kv. snd kv \<noteq> NaN)
        (map (\<lambda>k. (k, last_valid (group_prices rows k)))
          (sort (remdups (map (\<lambda>r. (timestamp r, coin_name r)) rows))))) = valid_keys rows"
    by (simp add: valid_keys_def kept_keys)
  have f: "map (\<lambda>kv. fst (fst kv)) xs = map fst (map fst xs)"
    and s: "map (\<lambda>kv. snd (fst kv)) xs = map snd (map fst xs)"
    for xs :: "((int \<times> string) \<times> pyfloat) list"
    by simp_all
  show ?thesis
    unfolding pivot_table_def Let_def f s k cell_lookup ..
qed

lemma sort_index_pivot: "sort_index (pivot_table rows) = pivot_table rows"
proof -
  have "sorted (index (pivot_table rows))"
    by (simp add: pivot_table_eq sorted_fst sorted_valid_keys)
  then show ?thesis
    by (rule sort_index_sorted) (simp add: pivot_table_eq)
qed

lemma set_columns_pivot:
  "set (columns (pivot_table rows)) = coin_name ` set (valid_rows rows)"
proof -
  have "set (map snd (valid_keys rows)) = coin_name ` set (valid_rows rows)"
    by (simp add: set_valid_keys image_image)
  then show ?thesis by (simp add: pivot_table_eq)
qed

lemma set_index_pivot:
  "set (index (pivot_table rows)) = timestamp ` set (valid_rows rows)"
proof -
  have "set (map fst (valid_keys rows)) = timestamp ` set (valid_rows rows)"
    by (simp add: set_valid_keys image_image)
  then show ?thesis by (simp add: pivot_table_eq)
qed

section \<open>The claims\<close>

subsection \<open>C1\<close>

text \<open>
  C1, as amended. For every change value \<open>c\<close> that is not NaN, \<open>classify_risk\<close>
  returns HIGH exactly when \<open>|c| >= 10\<close>, MEDIUM exactly when \<open>5 <= |c| < 10\<close> and
  LOW exactly when \<open>|c| < 5\<close>, the comparisons being those of Python floats (so both
  infinities are HIGH); the boundary inputs 5.0 and 10.0 give MEDIUM and HIGH. The
  function is total and deterministic: for every float, NaN included, it returns one of
  the three labels, and it reads and writes nothing but its argument.
\<close>

theorem classify_risk_thresholds:
  "classify_risk c \<in> {''HIGH'', ''MEDIUM'', ''LOW''} \<and>
   (c \<noteq> NaN \<longrightarrow>
      (classify_risk c = ''HIGH'' \<longleftrightarrow> fge (fabs c) (Num 10)) \<and>
      (classify_risk c = ''MEDIUM'' \<longleftrightarrow> fge (fabs c) (Num 5) \<and> flt (fabs c) (Num 10)) \<and>
      (classify_risk c = ''LOW'' \<longleftrightarrow> flt (fabs c) (Num 5))) \<and>
   (classify_risk (Num r) = ''HIGH'' \<longleftrightarrow> 10 \<le> \<bar>r\<bar>) \<and>
   (classify_risk (Num r) = ''MEDIUM'' \<longleftrightarrow> 5 \<le> \<bar>r\<bar> \<and> \<bar>r\<bar> < 10) \<and>
   (classify_risk (Num r) = ''LOW'' \<longleftrightarrow> \<bar>r\<bar> < 5) \<and>
   classify_risk PosInf = ''HIGH'' \<and>
   classify_risk NegInf = ''HIGH'' \<and>
   classify_risk (Num 5) = ''MEDIUM'' \<and>
   classify_risk (Num 10) = ''HIGH''"
proof -
  have "classify_risk c \<in> {''HIGH'', ''MEDIUM'', ''LOW''}"
    by (simp add: classify_risk_def Let_def)
  moreover have "c \<noteq> NaN \<longrightarrow>
      (classify_risk c = ''HIGH'' \<longleftrightarrow> fge (fabs c) (Num 10)) \<and>
      (classify_risk c = ''MEDIUM'' \<longleftrightarrow> fge (fabs c) (Num 5) \<and> flt (fabs c) (Num 10)) \<and>
      (classify_risk c = ''LOW'' \<longleftrightarrow> flt (fabs c) (Num 5))"
    by (cases c) (auto simp: classify_risk_def)
  moreover have "classify_risk (Num r) = ''HIGH'' \<longleftrightarrow> 10 \<le> \<bar>r\<bar>"
    and "classify_risk (Num r) = ''MEDIUM'' \<longleftrightarrow> 5 \<le> \<bar>r\<bar> \<and> \<bar>r\<bar> < 10"
    and "classify_risk (Num r) = ''LOW'' \<longleftrightarrow> \<bar>r\<bar> < 5"
    by (auto simp: classify_risk_def)
  moreover have "classify_risk PosInf = ''HIGH''" and "classify_risk NegInf = ''HIGH''"
    and "classify_risk (Num 5) = ''MEDIUM''" and "classify_risk (Num 10) = ''HIGH''"
    by (simp_all add: classify_risk_def)
  ultimately show ?thesis by blast
qed

theorem classify_risk_thresholds_witness:
  "Num (- 7) \<noteq> NaN \<and>
   classify_risk (Num (- 7)) = ''MEDIUM'' \<and>
   fge (fabs (Num (- 7))) (Num 5) \<and>
   flt (fabs (Num (- 7))) (Num 10) \<and>
   \<not> flt (fabs (Num (- 7))) (Num 5)"
  using classify_risk_thresholds [of "Num (- 7)"] by simp

text \<open>
  C1 as stated fails for NaN: \<open>abs(nan) >= 10\<close> and \<open>abs(nan) >= 5\<close> are both
  false, so the function falls through to LOW, while \<open>abs(nan) < 5\<close> is false too.
\<close>

theorem classify_risk_nan_counterexample:
  "\<not> (classify_risk NaN = ''LOW'' \<longleftrightarrow> flt (fabs NaN) (Num 5))"
  by (simp add: classify_risk_def)

subsection \<open>C3\<close>

text \<open>
  C3. Appending the records of a fetch puts one row per record after the rows already in
  the history, in the order of the records, and leaves the earlier rows as they were. So
  a history that starts empty holds, after any series of appends, exactly the appended
  records in the order received: N records give N rows, with nothing reordered, changed,
  dropped or merged.
\<close>

theorem update_history_appends:
  "history_rows (update_history now data st) = history_rows st @ map (new_row now) data \<and>
   length (history_rows (update_history now data st)) = length (history_rows st) + length data \<and>
   (history_rows st = [] \<longrightarrow>
      length (history_rows (update_history now data st)) = length data \<and>
      map coin_id (history_rows (update_history now data st)) = map fst data \<and>
      map row_price (history_rows (update_history now data st)) = map (\<lambda>x. price (snd x)) data \<and>
      map row_change_24h (history_rows (update_history now data st)) =
        map (\<lambda>x. change_24h (snd x)) data \<and>
      history_rows (append_all fetches st) =
        concat (map (\<lambda>f. map (new_row (fst f)) (snd f)) fetches) \<and>
      length (history_rows (append_all fetches st)) =
        sum_list (map (\<lambda>f. length (snd f)) fetches))"
proof -
  have "map coin_id (map (new_row now) data) = map fst data"
    and "map row_price (map (new_row now) data) = map (\<lambda>x. price (snd x)) data"
    and "map row_change_24h (map (new_row now) data) = map (\<lambda>x. change_24h (snd x)) data"
    by (simp_all add: new_row_def split_def)
  moreover have "length (concat (map (\<lambda>f. map (new_row (fst f)) (snd f)) fetches)) =
        sum_list (map (\<lambda>f. length (snd f)) fetches)"
    by (simp add: length_concat comp_def)
  ultimately show ?thesis
    by (simp add: history_rows_update history_rows_append_all)
qed

theorem update_history_appends_witness:
  "history_rows \<lparr>history = None, last_live_data = None\<rparr> = [] \<and>
   map coin_id (history_rows (update_history 0
       [(''bitcoin'', \<lparr>price = Num 3, change_24h = Num 11\<rparr>),
        (''tether'', \<lparr>price = Num 1, change_24h = Num 0\<rparr>)]
       \<lparr>history = None, last_live_data = None\<rparr>)) = [''bitcoin'', ''tether''] \<and>
   length (history_rows (append_all
       [(0, [(''bitcoin'', \<lparr>price = Num 3, change_24h = Num 11\<rparr>),
             (''tether'', \<lparr>price = Num 1, change_24h = Num 0\<rparr>)]),
        (1, [(''bitcoin'', \<lparr>price = Num 3, change_24h = Num 11\<rparr>)])]
       \<lparr>history = None, last_live_data = None\<rparr>)) = 3"
proof -
  have e: "history_rows \<lparr>history = None, last_live_data = None\<rparr> = []"
    by (simp add: history_rows_def)
  show ?thesis
    using e update_history_appends
      [of 0 "[(''bitcoin'', \<lparr>price = Num 3, change_24h = Num 11\<rparr>),
              (''tether'', \<lparr>price = Num 1, change_24h = Num 0\<rparr>)]"
          "\<lparr>history = None, last_live_data = None\<rparr>"
          "[(0, [(''bitcoin'', \<lparr>price = Num 3, change_24h = Num 11\<rparr>),
                 (''tether'', \<lparr>price = Num 1, change_24h = Num 0\<rparr>)]),
            (1, [(''bitcoin'', \<lparr>price = Num 3, change_24h = Num 11\<rparr>)])]"]
    by (simp add: new_row_def)
qed

subsection \<open>C7\<close>

text \<open>
  C7. With no asset identifier selected, \<open>fetch_live_prices\<close> returns the empty
  dictionary and sends no request; a run of the page with nothing selected sends none
  either, whether the button is pressed or not.
\<close>

theorem fetch_nothing_selected:
  "fetch_live_prices parse api [] = \<lparr>requests = [], messages = [], returned = Inr []\<rparr> \<and>
   sent (main parse api now [] button st) = [] \<and>
   raised (main parse api now [] button st) = None"
  by (simp add: fetch_live_prices_def main_def fetch_button_def Let_def)

subsection \<open>C8\<close>

text \<open>
  C8. Every row that \<open>update_history\<close> creates carries as its risk label the
  classification of its own 24h change. Hence, if that holds of the rows of the history,
  it holds again after an append and after a run of the page, and it holds of every row
  of a history that started empty.
\<close>

theorem risk_is_classification:
  "(\<forall>r\<in>set (map (new_row now) data). risk r = classify_risk (row_change_24h r)) \<and>
   (labelled (history_rows st) \<longrightarrow>
      labelled (history_rows (update_history now data st)) \<and>
      labelled (history_rows (state (main parse api now selected button st)))) \<and>
   (history_rows st = [] \<longrightarrow>
      (\<forall>r\<in>set (history_rows (append_all fetches st)).
          risk r = classify_risk (row_change_24h r)))"
proof -
  have n: "labelled (map (new_row t) d)" for t d
    by (rule labelled_new_rows)
  have c: "labelled (concat (map (\<lambda>f. map (new_row (fst f)) (snd f)) fetches))"
    by (induction fetches) (simp_all add: labelled_append n, simp add: labelled_def)
  have m: "labelled (history_rows (state (main parse api now selected button st)))"
    if "labelled (history_rows st)"
    using that history_rows_main [of parse api now selected button st]
    by (auto simp: labelled_append n)
  show ?thesis
    using n [of now data] c m
    by (simp add: history_rows_update history_rows_append_all labelled_append)
      (simp add: labelled_def list_all_iff)
qed

theorem risk_is_classification_witness:
  "history_rows \<lparr>history = None, last_live_data = None\<rparr> = [] \<and>
   \<lparr>timestamp = 0, coin_name = ''Bitcoin (BTC)'', coin_id = ''bitcoin'',
     row_price = Num 65000.1234, row_change_24h = Num 11, risk = ''HIGH''\<rparr>
     \<in> set (history_rows (append_all
         [(0, [(''bitcoin'', \<lparr>price = Num 65000.1234, change_24h = Num 11\<rparr>)])]
         \<lparr>history = None, last_live_data = None\<rparr>)) \<and>
   classify_risk (Num 11) = ''HIGH'' \<and>
   labelled (history_rows
     \<lparr>history = Some
        [\<lparr>timestamp = 0, coin_name = ''Bitcoin (BTC)'', coin_id = ''bitcoin'',
          row_price = Num 65000.1234, row_change_24h = Num 11, risk = ''HIGH''\<rparr>],
      last_live_data = None\<rparr>) \<and>
   history_rows (update_history 1 [(''tether'', \<lparr>price = Num 1, change_24h = Num (- 7)\<rparr>)]
     \<lparr>history = Some
        [\<lparr>timestamp = 0, coin_name = ''Bitcoin (BTC)'', coin_id = ''bitcoin'',
          row_price = Num 65000.1234, row_change_24h = Num 11, risk = ''HIGH''\<rparr>],
      last_live_data = None\<rparr>) =
     [\<lparr>timestamp = 0, coin_name = ''Bitcoin (BTC)'', coin_id = ''bitcoin'',
       row_price = Num 65000.1234, row_change_24h = Num 11, risk = ''HIGH''\<rparr>,
      \<lparr>timestamp = 1, coin_name = ''Tether (USDT)'', coin_id = ''tether'',
       row_price = Num 1, row_change_24h = Num (- 7), risk = ''MEDIUM''\<rparr>] \<and>
   labelled
     [\<lparr>timestamp = 0, coin_name = ''Bitcoin (BTC)'', coin_id = ''bitcoin'',
       row_price = Num 65000.1234, row_change_24h = Num 11, risk = ''HIGH''\<rparr>,
      \<lparr>timestamp = 1, coin_name = ''Tether (USDT)'', coin_id = ''tether'',
       row_price = Num 1, row_change_24h = Num (- 7), risk = ''MEDIUM''\<rparr>]"
proof -
  let ?st = "\<lparr>history = None, last_live_data = None\<rparr>"
  let ?fs = "[(0 :: int, [(''bitcoin'', \<lparr>price = Num 65000.1234, change_24h = Num 11\<rparr>)])]"
  let ?r = "\<lparr>timestamp = 0, coin_name = ''Bitcoin (BTC)'', coin_id = ''bitcoin'',
     row_price = Num 65000.1234, row_change_24h = Num 11, risk = ''HIGH''\<rparr>"
  let ?t = "\<lparr>timestamp = 1, coin_name = ''Tether (USDT)'', coin_id = ''tether'',
       row_price = Num 1, row_change_24h = Num (- 7), risk = ''MEDIUM''\<rparr>"
  let ?st1 = "\<lparr>history = Some [?r], last_live_data = None\<rparr>"
  let ?d = "[(''tether'', \<lparr>price = Num 1, change_24h = Num (- 7)\<rparr>)]"
  have e: "history_rows ?st = []"
    by (simp add: history_rows_def)
  have d: "display_name ''bitcoin'' = ''Bitcoin (BTC)''"
    "display_name ''tether'' = ''Tether (USDT)''"
    by (simp_all add: display_name_def id_to_display_eq)
  have c: "classify_risk (Num 11) = ''HIGH''" "classify_risk (Num (- 7)) = ''MEDIUM''"
    by (simp_all add: classify_risk_def)
  have h: "history_rows (append_all ?fs ?st) = [?r]"
    by (simp add: history_rows_append_all e new_row_def d c)
  have l: "labelled (history_rows ?st1)"
    by (simp add: history_rows_def labelled_def c)
  have u: "history_rows (update_history 1 ?d ?st1) = [?r, ?t]"
    by (simp add: history_rows_update new_row_def d c) (simp add: history_rows_def)
  from risk_is_classification [where st = ?st and fetches = ?fs] e h
  have "risk ?r = classify_risk (row_change_24h ?r)"
    by simp
  moreover from risk_is_classification [where st = ?st1 and now = 1 and data = ?d] l
  have "labelled (history_rows (update_history 1 ?d ?st1))"
    by blast
  ultimately show ?thesis
    using e h l u c by simp
qed

subsection \<open>C9\<close>

text \<open>
  C9. Appending an empty fetch result adds no row and leaves the rows of the history and
  the last fetch as they were; a session state that already has a history frame is left
  exactly as it was (one without gets an empty frame). The page does not even call the
  append for an empty result: the fetch button then leaves the session state untouched.
\<close>

theorem update_history_empty:
  "history_rows (update_history now [] st) = history_rows st \<and>
   last_live_data (update_history now [] st) = last_live_data st \<and>
   (history st \<noteq> None \<longrightarrow> update_history now [] st = st) \<and>
   (returned (fetch_live_prices parse api ids) = Inr [] \<longrightarrow>
      state (fetch_button parse api now ids st) = st)"
proof -
  have "history st \<noteq> None \<longrightarrow> update_history now [] st = st"
    by (auto simp: update_history_def)
  moreover have "returned (fetch_live_prices parse api ids) = Inr [] \<longrightarrow>
      state (fetch_button parse api now ids st) = st"
    by (simp add: fetch_button_def Let_def)
  ultimately show ?thesis
    by (simp add: history_rows_update last_live_data_update)
qed

theorem update_history_empty_witness:
  "history \<lparr>history = Some
       [\<lparr>timestamp = 0, coin_name = ''Bitcoin (BTC)'', coin_id = ''bitcoin'',
         row_price = Num 3, row_change_24h = Num 11, risk = ''HIGH''\<rparr>],
     last_live_data = None\<rparr> \<noteq> None \<and>
   update_history 5 []
     \<lparr>history = Some
       [\<lparr>timestamp = 0, coin_name = ''Bitcoin (BTC)'', coin_id = ''bitcoin'',
         row_price = Num 3, row_change_24h = Num 11, risk = ''HIGH''\<rparr>],
      last_live_data = None\<rparr> =
     \<lparr>history = Some
       [\<lparr>timestamp = 0, coin_name = ''Bitcoin (BTC)'', coin_id = ''bitcoin'',
         row_price = Num 3, row_change_24h = Num 11, risk = ''HIGH''\<rparr>],
      last_live_data = None\<rparr> \<and>
   returned (fetch_live_prices (\<lambda>s. None)
     (\<lambda>q. Response \<lparr>status_code = 200, http_error_msg = [], body = Json (JObj [])\<rparr>)
     [''bitcoin'']) = Inr [] \<and>
   state (fetch_button (\<lambda>s. None)
     (\<lambda>q. Response \<lparr>status_code = 200, http_error_msg = [], body = Json (JObj [])\<rparr>)
     5 [''bitcoin'']
     \<lparr>history = None, last_live_data = None\<rparr>) = \<lparr>history = None, last_live_data = None\<rparr>"
proof -
  have f: "returned (fetch_live_prices (\<lambda>s. None)
      (\<lambda>q. Response \<lparr>status_code = 200, http_error_msg = [], body = Json (JObj [])\<rparr>)
      [''bitcoin'']) = Inr []"
    by (simp add: fetch_live_prices_def try_block_def raise_for_status_def)
  show ?thesis
    using f
      update_history_empty
        [where now = 5 and st = "\<lparr>history = Some
           [\<lparr>timestamp = 0, coin_name = ''Bitcoin (BTC)'', coin_id = ''bitcoin'',
             row_price = Num 3, row_change_24h = Num 11, risk = ''HIGH''\<rparr>],
          last_live_data = None\<rparr>"]
      update_history_empty
        [where now = 5 and st = "\<lparr>history = None, last_live_data = None\<rparr>"
           and parse = "\<lambda>s. None" and api = "\<lambda>q. Response \<lparr>status_code = 200, http_error_msg = [], body = Json (JObj [])\<rparr>" and ids = "[''bitcoin'']"]
    by simp
qed

subsection \<open>C10\<close>

text \<open>
  C10. A fetched entry whose identifier has no display name in the table built from
  \<open>COINS\<close> is not dropped: the history gets a row for it and the snapshot gets a row
  for it, at the entry's position, and both rows carry the raw identifier as the name.
\<close>

theorem unknown_id_keeps_raw_name:
  assumes "map_of id_to_display cid = None"
    and "i < length data"
    and "fst (data ! i) = cid"
  shows "length (history_rows (update_history now data st)) =
           length (history_rows st) + length data \<and>
         coin_name (history_rows (update_history now data st) ! (length (history_rows st) + i)) = cid \<and>
         coin_id (history_rows (update_history now data st) ! (length (history_rows st) + i)) = cid \<and>
         length (get_latest_snapshot_df py_round data) = length data \<and>
         Coin (get_latest_snapshot_df py_round data ! i) = cid"
proof -
  from assms(1) have d: "display_name cid = cid"
    by (simp add: display_name_def)
  obtain v where "data ! i = (cid, v)"
    using assms(3) by (cases "data ! i") auto
  with d assms(2) show ?thesis
    by (simp add: history_rows_update nth_append get_latest_snapshot_df_def Let_def
          new_row_def snapshot_of_def)
qed

theorem unknown_id_keeps_raw_name_witness:
  "map_of id_to_display ''dogecoin'' = None \<and>
   coin_name (history_rows (update_history 0
       [(''bitcoin'', \<lparr>price = Num 3, change_24h = Num 11\<rparr>),
        (''dogecoin'', \<lparr>price = Num 1, change_24h = Num 0\<rparr>)]
       \<lparr>history = None, last_live_data = None\<rparr>) ! 1) = ''dogecoin'' \<and>
   Coin (get_latest_snapshot_df (\<lambda>x ndigits. x)
       [(''bitcoin'', \<lparr>price = Num 3, change_24h = Num 11\<rparr>),
        (''dogecoin'', \<lparr>price = Num 1, change_24h = Num 0\<rparr>)] ! 1) = ''dogecoin''"
proof -
  let ?data = "[(''bitcoin'', \<lparr>price = Num 3, change_24h = Num 11\<rparr>),
        (''dogecoin'', \<lparr>price = Num 1, change_24h = Num 0\<rparr>)]"
  have a: "map_of id_to_display ''dogecoin'' = None"
    by (simp add: id_to_display_eq)
  have b: "(1 :: nat) < length ?data" by simp
  have c: "fst (?data ! 1) = ''dogecoin''" by simp
  have e: "history_rows \<lparr>history = None, last_live_data = None\<rparr> = []"
    by (simp add: history_rows_def)
  from unknown_id_keeps_raw_name
    [OF a b c, where now = 0 and st = "\<lparr>history = None, last_live_data = None\<rparr>"
       and py_round = "\<lambda>x ndigits. x"] a e
  show ?thesis by simp
qed

subsection \<open>C2\<close>

text \<open>
  C2, as amended. When the API call of a fetch fails with a network error, a timeout or
  an HTTP error status (400 to 599), \<open>fetch_live_prices\<close> does not raise: it shows
  one error message, with the text of the exception, and returns the empty dictionary.
  The fetch button then leaves the session state, and so the history, as it was, and the
  page is the one that a run without the button press draws from the prior state, with
  the error message in front.
\<close>

theorem fetch_failure_keeps_state:
  assumes "selected_ids selected = Inr ids"
    and "ids \<noteq> []"
    and "call_failed (api (api_request ids))"
  shows "fetch_live_prices parse api ids =
           \<lparr>requests = [api_request ids],
            messages =
              [St_error (cross_mark @ '' Error calling CoinGecko API: '' @
                 failure_text (api (api_request ids)))],
            returned = Inr []\<rparr> \<and>
         fetch_button parse api now ids st =
           \<lparr>state = st,
            sent = [api_request ids],
            shown =
              [St_error (cross_mark @ '' Error calling CoinGecko API: '' @
                 failure_text (api (api_request ids)))],
            raised = None\<rparr> \<and>
         main parse api now selected True st =
           (main parse api now selected False st)
             \<lparr>sent := [api_request ids],
              shown :=
                St_error (cross_mark @ '' Error calling CoinGecko API: '' @
                  failure_text (api (api_request ids))) #
                shown (main parse api now selected False st)\<rparr>"
proof -
  let ?e = "failure_text (api (api_request ids))"
  have t: "try_block (api (api_request ids)) = Inl ?e"
    using assms(3)
    by (cases "api (api_request ids)") (simp_all add: try_block_def raise_for_status_def)
  have f: "fetch_live_prices parse api ids =
           \<lparr>requests = [api_request ids],
            messages = [St_error (cross_mark @ '' Error calling CoinGecko API: '' @ ?e)],
            returned = Inr []\<rparr>"
    using assms(2) t by (simp add: fetch_live_prices_def Let_def)
  then have b: "fetch_button parse api now ids st =
           \<lparr>state = st,
            sent = [api_request ids],
            shown = [St_error (cross_mark @ '' Error calling CoinGecko API: '' @ ?e)],
            raised = None\<rparr>"
    by (simp add: fetch_button_def Let_def)
  from b assms(1) have "main parse api now selected True st =
           (main parse api now selected False st)
             \<lparr>sent := [api_request ids],
              shown := St_error (cross_mark @ '' Error calling CoinGecko API: '' @ ?e) #
                       shown (main parse api now selected False st)\<rparr>"
    by (simp add: main_def Let_def)
  with f b show ?thesis by simp
qed

theorem fetch_failure_keeps_state_witness:
  "selected_ids [''Bitcoin (BTC)''] = Inr [''bitcoin''] \<and>
   [''bitcoin''] \<noteq> [] \<and>
   call_failed (Response
     \<lparr>status_code = 503, http_error_msg = ''503 Server Error'', body = Json (JObj [])\<rparr>) \<and>
   returned (fetch_live_prices (\<lambda>s. None)
     (\<lambda>q. Response
        \<lparr>status_code = 503, http_error_msg = ''503 Server Error'', body = Json (JObj [])\<rparr>)
     [''bitcoin'']) = Inr [] \<and>
   messages (fetch_live_prices (\<lambda>s. None)
     (\<lambda>q. Response
        \<lparr>status_code = 503, http_error_msg = ''503 Server Error'', body = Json (JObj [])\<rparr>)
     [''bitcoin'']) =
     [St_error (cross_mark @ '' Error calling CoinGecko API: 503 Server Error'')] \<and>
   call_failed (Raised Timeout ''timed out'') \<and>
   messages (fetch_live_prices (\<lambda>s. None) (\<lambda>q. Raised Timeout ''timed out'') [''bitcoin'']) =
     [St_error (cross_mark @ '' Error calling CoinGecko API: timed out'')] \<and>
   state (fetch_button (\<lambda>s. None) (\<lambda>q. Raised Timeout ''timed out'') 7 [''bitcoin'']
      \<lparr>history = Some
         [\<lparr>timestamp = 0, coin_name = ''Bitcoin (BTC)'', coin_id = ''bitcoin'',
           row_price = Num 3, row_change_24h = Num 11, risk = ''HIGH''\<rparr>],
       last_live_data = Some [(''bitcoin'', \<lparr>price = Num 3, change_24h = Num 11\<rparr>)]\<rparr>) =
     \<lparr>history = Some
         [\<lparr>timestamp = 0, coin_name = ''Bitcoin (BTC)'', coin_id = ''bitcoin'',
           row_price = Num 3, row_change_24h = Num 11, risk = ''HIGH''\<rparr>],
       last_live_data = Some [(''bitcoin'', \<lparr>price = Num 3, change_24h = Num 11\<rparr>)]\<rparr>"
proof -
  let ?r = "Response
     \<lparr>status_code = 503, http_error_msg = ''503 Server Error'', body = Json (JObj [])\<rparr>"
  have a: "selected_ids [''Bitcoin (BTC)''] = Inr [''bitcoin'']"
    by (simp add: COINS_def)
  have b: "[''bitcoin''] \<noteq> []" by simp
  have c: "call_failed ((\<lambda>q. ?r) (api_request [''bitcoin'']))" by simp
  have d: "call_failed ((\<lambda>q. Raised Timeout ''timed out'') (api_request [''bitcoin'']))"
    by simp
  from fetch_failure_keeps_state [OF a b c, where parse = "\<lambda>s. None"]
    fetch_failure_keeps_state [OF a b d, where parse = "\<lambda>s. None" and now = 7] a
  show ?thesis by simp
qed

text \<open>
  C2 as stated fails for a status that is neither a success nor an HTTP error: for a
  response with status 300 \<open>raise_for_status\<close> raises nothing, so a body that
  decodes is taken as prices. No error message is shown, the result is not empty, and
  the fetch button appends it to the history.
\<close>

theorem fetch_status_300_counterexample:
  "status_code
     \<lparr>status_code = 300, http_error_msg = [],
      body = Json (JObj [(''bitcoin'', JObj [(''usd'', JNum (Num 1))])])\<rparr> = 300 \<and>
   fetch_live_prices (\<lambda>s. None)
     (\<lambda>q. Response
        \<lparr>status_code = 300, http_error_msg = [],
         body = Json (JObj [(''bitcoin'', JObj [(''usd'', JNum (Num 1))])])\<rparr>)
     [''bitcoin''] =
     \<lparr>requests = [api_request [''bitcoin'']],
      messages = [],
      returned = Inr [(''bitcoin'', \<lparr>price = Num 1, change_24h = Num 0\<rparr>)]\<rparr> \<and>
   history_rows (state (fetch_button (\<lambda>s. None)
     (\<lambda>q. Response
        \<lparr>status_code = 300, http_error_msg = [],
         body = Json (JObj [(''bitcoin'', JObj [(''usd'', JNum (Num 1))])])\<rparr>)
     0 [''bitcoin''] \<lparr>history = None, last_live_data = None\<rparr>)) =
     [\<lparr>timestamp = 0, coin_name = ''Bitcoin (BTC)'', coin_id = ''bitcoin'',
       row_price = Num 1, row_change_24h = Num 0, risk = ''LOW''\<rparr>]"
proof -
  let ?api = "\<lambda>q :: request. Response
        \<lparr>status_code = 300, http_error_msg = [],
         body = Json (JObj [(''bitcoin'', JObj [(''usd'', JNum (Num 1))])])\<rparr>"
  have f: "fetch_live_prices (\<lambda>s. None) ?api [''bitcoin''] =
     \<lparr>requests = [api_request [''bitcoin'']],
      messages = [],
      returned = Inr [(''bitcoin'', \<lparr>price = Num 1, change_24h = Num 0\<rparr>)]\<rparr>"
    by (simp add: fetch_live_prices_def try_block_def raise_for_status_def Let_def
          clean_item_def dict_get_def FIAT_CURRENCY_def)
  have d: "display_name ''bitcoin'' = ''Bitcoin (BTC)''"
    by (simp add: display_name_def id_to_display_eq)
  have c: "classify_risk (Num 0) = ''LOW''"
    by (simp add: classify_risk_def)
  have "history_rows (state (fetch_button (\<lambda>s. None) ?api 0 [''bitcoin'']
      \<lparr>history = None, last_live_data = None\<rparr>)) =
     [\<lparr>timestamp = 0, coin_name = ''Bitcoin (BTC)'', coin_id = ''bitcoin'',
       row_price = Num 1, row_change_24h = Num 0, risk = ''LOW''\<rparr>]"
    by (simp add: fetch_button_def f history_rows_last_live_data history_rows_update
          new_row_def d c)
       (simp add: history_rows_def)
  with f show ?thesis by simp
qed

subsection \<open>C4\<close>

text \<open>
  C4. Filtering the history by the selected asset names returns rows of the history
  whose name is among the selected ones, and no other: a row of an asset that is not
  selected never appears in the result, nor does such an asset get a series in the chart
  drawn from it.
\<close>

theorem isin_filter_only_selected:
  "(\<forall>r\<in>set (isin_filter selected history_df).
      coin_name r \<in> set selected \<and> r \<in> set history_df) \<and>
   (\<forall>r\<in>set history_df.
      coin_name r \<notin> set selected \<longrightarrow> r \<notin> set (isin_filter selected history_df)) \<and>
   (\<forall>ch. price_history selected history_df = [St_line_chart ch] \<longrightarrow>
      set (columns ch) \<subseteq> set selected)"
proof -
  have "set (columns ch) \<subseteq> set selected"
    if "price_history selected history_df = [St_line_chart ch]" for ch
  proof -
    from that have "ch = pivot_table (isin_filter selected history_df)"
      by (auto simp: price_history_def Let_def sort_index_pivot split: if_splits)
    then show ?thesis
      by (auto simp: set_columns_pivot valid_rows_def isin_filter_def)
  qed
  then show ?thesis by (auto simp: isin_filter_def)
qed

theorem isin_filter_only_selected_witness:
  "isin_filter [''Bitcoin (BTC)'']
     [\<lparr>timestamp = 0, coin_name = ''Bitcoin (BTC)'', coin_id = ''bitcoin'',
       row_price = Num 3, row_change_24h = Num 11, risk = ''HIGH''\<rparr>,
      \<lparr>timestamp = 0, coin_name = ''Ethereum (ETH)'', coin_id = ''ethereum'',
       row_price = Num 2, row_change_24h = Num 1, risk = ''LOW''\<rparr>] =
     [\<lparr>timestamp = 0, coin_name = ''Bitcoin (BTC)'', coin_id = ''bitcoin'',
       row_price = Num 3, row_change_24h = Num 11, risk = ''HIGH''\<rparr>] \<and>
   coin_name \<lparr>timestamp = 0, coin_name = ''Bitcoin (BTC)'', coin_id = ''bitcoin'',
       row_price = Num 3, row_change_24h = Num 11, risk = ''HIGH''\<rparr> \<in> set [''Bitcoin (BTC)''] \<and>
   coin_name \<lparr>timestamp = 0, coin_name = ''Ethereum (ETH)'', coin_id = ''ethereum'',
       row_price = Num 2, row_change_24h = Num 1, risk = ''LOW''\<rparr> \<notin> set [''Bitcoin (BTC)''] \<and>
   price_history [''Bitcoin (BTC)'']
     [\<lparr>timestamp = 0, coin_name = ''Bitcoin (BTC)'', coin_id = ''bitcoin'',
       row_price = Num 3, row_change_24h = Num 11, risk = ''HIGH''\<rparr>,
      \<lparr>timestamp = 0, coin_name = ''Ethereum (ETH)'', coin_id = ''ethereum'',
       row_price = Num 2, row_change_24h = Num 1, risk = ''LOW''\<rparr>] =
     [St_line_chart \<lparr>index = [0], columns = [''Bitcoin (BTC)''], cells = [[Num 3]]\<rparr>] \<and>
   set (columns \<lparr>index = [0], columns = [''Bitcoin (BTC)''], cells = [[Num 3]]\<rparr>)
     \<subseteq> set [''Bitcoin (BTC)'']"
proof -
  let ?b = "\<lparr>timestamp = 0, coin_name = ''Bitcoin (BTC)'', coin_id = ''bitcoin'',
       row_price = Num 3, row_change_24h = Num 11, risk = ''HIGH''\<rparr>"
  let ?e = "\<lparr>timestamp = 0, coin_name = ''Ethereum (ETH)'', coin_id = ''ethereum'',
       row_price = Num 2, row_change_24h = Num 1, risk = ''LOW''\<rparr>"
  have f: "isin_filter [''Bitcoin (BTC)''] [?b, ?e] = [?b]"
    by (simp add: isin_filter_def)
  have p: "price_history [''Bitcoin (BTC)''] [?b, ?e] =
     [St_line_chart \<lparr>index = [0], columns = [''Bitcoin (BTC)''], cells = [[Num 3]]\<rparr>]"
    by code_simp
  from isin_filter_only_selected [of "[''Bitcoin (BTC)'']" "[?b, ?e]"] f p
  show ?thesis by simp
qed

subsection \<open>C5\<close>

text \<open>
  C5, as amended. The chart is the pivot of the rows of the filtered history whose price
  is not NaN: its row labels are the distinct timestamps of those rows in ascending
  order, it has one series (column) per asset name among them, and the value of an asset
  at a timestamp is the last of those rows' prices for that asset at that timestamp (the
  cell is empty, NaN, where there is none). The price history section draws exactly this
  chart whenever the filtered history has a row.
\<close>

theorem pivot_last_valid_price:
  "(isin_filter selected history_df \<noteq> [] \<longrightarrow>
      price_history selected history_df =
        [St_line_chart (sort_index (pivot_table (isin_filter selected history_df)))]) \<and>
   sorted (index (sort_index (pivot_table rows))) \<and>
   distinct (index (sort_index (pivot_table rows))) \<and>
   set (index (sort_index (pivot_table rows))) = timestamp ` set (valid_rows rows) \<and>
   sorted (columns (sort_index (pivot_table rows))) \<and>
   distinct (columns (sort_index (pivot_table rows))) \<and>
   set (columns (sort_index (pivot_table rows))) = coin_name ` set (valid_rows rows) \<and>
   cells (sort_index (pivot_table rows)) =
     map (\<lambda>t. map (\<lambda>c. last_recorded (group_prices (valid_rows rows) (t, c)))
               (columns (sort_index (pivot_table rows))))
       (index (sort_index (pivot_table rows)))"
proof -
  have "isin_filter selected history_df \<noteq> [] \<longrightarrow>
      price_history selected history_df =
        [St_line_chart (sort_index (pivot_table (isin_filter selected history_df)))]"
    by (auto simp: price_history_def Let_def isin_filter_def)
  moreover have "sorted (index (pivot_table rows))"
    by (simp add: pivot_table_eq sorted_fst sorted_valid_keys)
  moreover have "distinct (index (pivot_table rows))"
    and "distinct (columns (pivot_table rows))"
    and "sorted (columns (pivot_table rows))"
    by (simp_all add: pivot_table_eq)
  moreover have "cells (pivot_table rows) =
     map (\<lambda>t. map (\<lambda>c. last_recorded (group_prices (valid_rows rows) (t, c)))
               (columns (pivot_table rows)))
       (index (pivot_table rows))"
    by (simp add: pivot_table_eq last_valid_group)
  ultimately show ?thesis
    by (simp add: sort_index_pivot set_index_pivot set_columns_pivot)
qed

theorem pivot_last_valid_price_witness:
  "isin_filter [''Bitcoin (BTC)'', ''Ethereum (ETH)'']
     [\<lparr>timestamp = 2, coin_name = ''Bitcoin (BTC)'', coin_id = ''bitcoin'',
       row_price = Num 5, row_change_24h = Num 0, risk = ''LOW''\<rparr>,
      \<lparr>timestamp = 1, coin_name = ''Bitcoin (BTC)'', coin_id = ''bitcoin'',
       row_price = Num 4, row_change_24h = Num 0, risk = ''LOW''\<rparr>,
      \<lparr>timestamp = 2, coin_name = ''Ethereum (ETH)'', coin_id = ''ethereum'',
       row_price = Num 7, row_change_24h = Num 0, risk = ''LOW''\<rparr>,
      \<lparr>timestamp = 2, coin_name = ''Bitcoin (BTC)'', coin_id = ''bitcoin'',
       row_price = Num 6, row_change_24h = Num 0, risk = ''LOW''\<rparr>] \<noteq> [] \<and>
   price_history [''Bitcoin (BTC)'', ''Ethereum (ETH)'']
     [\<lparr>timestamp = 2, coin_name = ''Bitcoin (BTC)'', coin_id = ''bitcoin'',
       row_price = Num 5, row_change_24h = Num 0, risk = ''LOW''\<rparr>,
      \<lparr>timestamp = 1, coin_name = ''Bitcoin (BTC)'', coin_id = ''bitcoin'',
       row_price = Num 4, row_change_24h = Num 0, risk = ''LOW''\<rparr>,
      \<lparr>timestamp = 2, coin_name = ''Ethereum (ETH)'', coin_id = ''ethereum'',
       row_price = Num 7, row_change_24h = Num 0, risk = ''LOW''\<rparr>,
      \<lparr>timestamp = 2, coin_name = ''Bitcoin (BTC)'', coin_id = ''bitcoin'',
       row_price = Num 6, row_change_24h = Num 0, risk = ''LOW''\<rparr>] =
     [St_line_chart
        \<lparr>index = [1, 2],
         columns = [''Bitcoin (BTC)'', ''Ethereum (ETH)''],
         cells = [[Num 4, NaN], [Num 6, Num 7]]\<rparr>]"
proof -
  let ?h = "[\<lparr>timestamp = 2, coin_name = ''Bitcoin (BTC)'', coin_id = ''bitcoin'',
       row_price = Num 5, row_change_24h = Num 0, risk = ''LOW''\<rparr>,
      \<lparr>timestamp = 1, coin_name = ''Bitcoin (BTC)'', coin_id = ''bitcoin'',
       row_price = Num 4, row_change_24h = Num 0, risk = ''LOW''\<rparr>,
      \<lparr>timestamp = 2, coin_name = ''Ethereum (ETH)'', coin_id = ''ethereum'',
       row_price = Num 7, row_change_24h = Num 0, risk = ''LOW''\<rparr>,
      \<lparr>timestamp = 2, coin_name = ''Bitcoin (BTC)'', coin_id = ''bitcoin'',
       row_price = Num 6, row_change_24h = Num 0, risk = ''LOW''\<rparr>]"
  let ?s = "[''Bitcoin (BTC)'', ''Ethereum (ETH)'']"
  have n: "isin_filter ?s ?h \<noteq> []"
    by (simp add: isin_filter_def)
  have f: "isin_filter ?s ?h = ?h"
    by (simp add: isin_filter_def)
  have c: "sort_index (pivot_table ?h) =
      \<lparr>index = [1, 2],
       columns = [''Bitcoin (BTC)'', ''Ethereum (ETH)''],
       cells = [[Num 4, NaN], [Num 6, Num 7]]\<rparr>"
    by code_simp
  from pivot_last_valid_price [of ?s ?h] n
  have "price_history ?s ?h = [St_line_chart (sort_index (pivot_table (isin_filter ?s ?h)))]"
    by blast
  with n show ?thesis
    unfolding f c by simp
qed

text \<open>
  C5 as stated fails where the last price recorded for an asset at a timestamp is NaN and
  an earlier one is not: the aggregation passes over NaN. Two fetches stamped with the
  same time, the second with a NaN price, give such a history; the chart shows 1 for the
  asset, the last price recorded is NaN.
\<close>

theorem pivot_last_price_counterexample:
  "history_rows (append_all
      [(0, [(''bitcoin'', \<lparr>price = Num 1, change_24h = Num 0\<rparr>)]),
       (0, [(''bitcoin'', \<lparr>price = NaN, change_24h = Num 0\<rparr>)])]
      \<lparr>history = None, last_live_data = None\<rparr>) =
     [\<lparr>timestamp = 0, coin_name = ''Bitcoin (BTC)'', coin_id = ''bitcoin'',
       row_price = Num 1, row_change_24h = Num 0, risk = ''LOW''\<rparr>,
      \<lparr>timestamp = 0, coin_name = ''Bitcoin (BTC)'', coin_id = ''bitcoin'',
       row_price = NaN, row_change_24h = Num 0, risk = ''LOW''\<rparr>] \<and>
   price_history [''Bitcoin (BTC)'']
     [\<lparr>timestamp = 0, coin_name = ''Bitcoin (BTC)'', coin_id = ''bitcoin'',
       row_price = Num 1, row_change_24h = Num 0, risk = ''LOW''\<rparr>,
      \<lparr>timestamp = 0, coin_name = ''Bitcoin (BTC)'', coin_id = ''bitcoin'',
       row_price = NaN, row_change_24h = Num 0, risk = ''LOW''\<rparr>] =
     [St_line_chart \<lparr>index = [0], columns = [''Bitcoin (BTC)''], cells = [[Num 1]]\<rparr>] \<and>
   last (group_prices
     (isin_filter [''Bitcoin (BTC)'']
       [\<lparr>timestamp = 0, coin_name = ''Bitcoin (BTC)'', coin_id = ''bitcoin'',
         row_price = Num 1, row_change_24h = Num 0, risk = ''LOW''\<rparr>,
        \<lparr>timestamp = 0, coin_name = ''Bitcoin (BTC)'', coin_id = ''bitcoin'',
         row_price = NaN, row_change_24h = Num 0, risk = ''LOW''\<rparr>])
     (0, ''Bitcoin (BTC)'')) = NaN"
proof -
  have "history_rows (append_all
      [(0, [(''bitcoin'', \<lparr>price = Num 1, change_24h = Num 0\<rparr>)]),
       (0, [(''bitcoin'', \<lparr>price = NaN, change_24h = Num 0\<rparr>)])]
      \<lparr>history = None, last_live_data = None\<rparr>) =
     [\<lparr>timestamp = 0, coin_name = ''Bitcoin (BTC)'', coin_id = ''bitcoin'',
       row_price = Num 1, row_change_24h = Num 0, risk = ''LOW''\<rparr>,
      \<lparr>timestamp = 0, coin_name = ''Bitcoin (BTC)'', coin_id = ''bitcoin'',
       row_price = NaN, row_change_24h = Num 0, risk = ''LOW''\<rparr>]"
    by code_simp
  moreover have "price_history [''Bitcoin (BTC)'']
     [\<lparr>timestamp = 0, coin_name = ''Bitcoin (BTC)'', coin_id = ''bitcoin'',
       row_price = Num 1, row_change_24h = Num 0, risk = ''LOW''\<rparr>,
      \<lparr>timestamp = 0, coin_name = ''Bitcoin (BTC)'', coin_id = ''bitcoin'',
       row_price = NaN, row_change_24h = Num 0, risk = ''LOW''\<rparr>] =
     [St_line_chart \<lparr>index = [0], columns = [''Bitcoin (BTC)''], cells = [[Num 1]]\<rparr>]"
    by code_simp
  ultimately show ?thesis
    by (simp add: isin_filter_def group_prices_def)
qed

subsection \<open>C6\<close>

text \<open>
  C6, as amended. Let the API call of a fetch succeed with an object of items. If every
  item has the shape the API documents, with its numbers in the range of a float,
  \<open>fetch_live_prices\<close> returns a cleaned dictionary. Whenever it returns one, the
  cleaned dictionary holds, in the order of the response, exactly the items that have a
  price (one that is present and not \<open>null\<close>), so an item whose price field is
  missing is dropped; and each kept item carries its price converted to a float, and as
  its change the 24h-change field converted to a float, or 0.0 where the item has no
  such field.
\<close>

theorem fetch_cleans_response:
  assumes "ids \<noteq> []"
    and "try_block (api (api_request ids)) = Inr (JObj items)"
    and "distinct (map fst items)"
  shows "((\<forall>it\<in>set items. expected_entry (snd it)) \<longrightarrow>
            (\<exists>cleaned. returned (fetch_live_prices parse api ids) = Inr cleaned)) \<and>
         (\<forall>cleaned. returned (fetch_live_prices parse api ids) = Inr cleaned \<longrightarrow>
            map fst cleaned =
              map fst (filter (\<lambda>it. price_field (snd it) \<notin> {None, Some JNull}) items) \<and>
            (\<forall>it\<in>set items. price_field (snd it) = None \<longrightarrow> map_of cleaned (fst it) = None) \<and>
            (\<forall>x\<in>set cleaned. \<exists>entry p.
                (fst x, entry) \<in> set items \<and>
                price_field entry = Some p \<and>
                converted parse p (price (snd x)) \<and>
                (case change_field entry of
                   None \<Rightarrow> change_24h (snd x) = Num 0
                 | Some c \<Rightarrow> converted parse c (change_24h (snd x)))))"
proof -
  have r: "returned (fetch_live_prices parse api ids) = clean_loop parse items []"
    using assms(1,2) by (simp add: fetch_live_prices_def Let_def)
  have t: "(\<forall>it\<in>set items. expected_entry (snd it)) \<longrightarrow>
      (\<exists>cleaned. returned (fetch_live_prices parse api ids) = Inr cleaned)"
    unfolding r using clean_loop_returns by blast
  have k: "map fst cleaned =
              map fst (filter (\<lambda>it. price_field (snd it) \<notin> {None, Some JNull}) items) \<and>
            (\<forall>it\<in>set items. price_field (snd it) = None \<longrightarrow> map_of cleaned (fst it) = None) \<and>
            (\<forall>x\<in>set cleaned. \<exists>entry p.
                (fst x, entry) \<in> set items \<and>
                price_field entry = Some p \<and>
                converted parse p (price (snd x)) \<and>
                (case change_field entry of
                   None \<Rightarrow> change_24h (snd x) = Num 0
                 | Some c \<Rightarrow> converted parse c (change_24h (snd x))))"
    if c: "clean_loop parse items [] = Inr cleaned" for cleaned
  proof -
    from clean_loop_result [OF assms(3) _ c]
    have m: "map fst cleaned =
        map fst (filter (\<lambda>it. price_field (snd it) \<notin> {None, Some JNull}) items)"
      and e: "\<forall>x\<in>set cleaned. \<exists>entry. (fst x, entry) \<in> set items \<and>
          clean_item parse entry = Inr (Some (snd x))"
      by auto
    have "map_of cleaned (fst it) = None" if i: "it \<in> set items" "price_field (snd it) = None" for it
    proof (rule ccontr)
      assume "map_of cleaned (fst it) \<noteq> None"
      then have "fst it \<in> set (map fst cleaned)"
        by (auto simp: map_of_eq_None_iff)
      then obtain it' where i': "it' \<in> set items" "fst it' = fst it"
          "price_field (snd it') \<notin> {None, Some JNull}"
        unfolding m by auto
      from assms(3) i(1) i'(1,2) have "it' = it"
        by (metis eq_key_imp_eq_value prod.collapse)
      with i(2) i'(3) show False by simp
    qed
    moreover have "\<exists>entry p. (fst x, entry) \<in> set items \<and>
                price_field entry = Some p \<and>
                converted parse p (price (snd x)) \<and>
                (case change_field entry of
                   None \<Rightarrow> change_24h (snd x) = Num 0
                 | Some c \<Rightarrow> converted parse c (change_24h (snd x)))"
      if "x \<in> set cleaned" for x
    proof -
      from e that obtain entry where "(fst x, entry) \<in> set items"
        "clean_item parse entry = Inr (Some (snd x))" by blast
      then show ?thesis
        unfolding clean_item_Some by blast
    qed
    ultimately show ?thesis using m by blast
  qed
  show ?thesis
    using t k unfolding r by blast
qed

theorem fetch_cleans_response_witness:
  "[''bitcoin'', ''tether'', ''ripple''] \<noteq> [] \<and>
   try_block (Response \<lparr>status_code = 200, http_error_msg = [], body = Json (JObj
     [(''bitcoin'', JObj [(''usd'', JNum (Num 65000.5)), (''usd_24h_change'', JInt 11)]),
      (''tether'', JObj [(''usd'', JInt 1)]),
      (''ripple'', JObj [(''usd_24h_change'', JNum (Num 2))])])\<rparr>) =
     Inr (JObj
     [(''bitcoin'', JObj [(''usd'', JNum (Num 65000.5)), (''usd_24h_change'', JInt 11)]),
      (''tether'', JObj [(''usd'', JInt 1)]),
      (''ripple'', JObj [(''usd_24h_change'', JNum (Num 2))])]) \<and>
   distinct (map fst
     [(''bitcoin'', JObj [(''usd'', JNum (Num 65000.5)), (''usd_24h_change'', JInt 11)]),
      (''tether'', JObj [(''usd'', JInt 1)]),
      (''ripple'', JObj [(''usd_24h_change'', JNum (Num 2))])]) \<and>
   expected_entry (JObj [(''usd'', JNum (Num 65000.5)), (''usd_24h_change'', JInt 11)]) \<and>
   expected_entry (JObj [(''usd'', JInt 1)]) \<and>
   expected_entry (JObj [(''usd_24h_change'', JNum (Num 2))]) \<and>
   returned (fetch_live_prices (\<lambda>s. None)
     (\<lambda>q. Response \<lparr>status_code = 200, http_error_msg = [], body = Json (JObj
       [(''bitcoin'', JObj [(''usd'', JNum (Num 65000.5)), (''usd_24h_change'', JInt 11)]),
        (''tether'', JObj [(''usd'', JInt 1)]),
        (''ripple'', JObj [(''usd_24h_change'', JNum (Num 2))])])\<rparr>)
     [''bitcoin'', ''tether'', ''ripple'']) =
     Inr [(''bitcoin'', \<lparr>price = Num 65000.5, change_24h = Num 11\<rparr>),
          (''tether'', \<lparr>price = Num 1, change_24h = Num 0\<rparr>)] \<and>
   price_field (JObj [(''usd_24h_change'', JNum (Num 2))]) = None \<and>
   map_of [(''bitcoin'', \<lparr>price = Num 65000.5, change_24h = Num 11\<rparr>),
           (''tether'', \<lparr>price = Num 1, change_24h = Num 0\<rparr>)] ''ripple'' = None \<and>
   change_field (JObj [(''usd'', JInt 1)]) = None"
proof -
  let ?ids = "[''bitcoin'', ''tether'', ''ripple'']"
  let ?items =
    "[(''bitcoin'', JObj [(''usd'', JNum (Num 65000.5)), (''usd_24h_change'', JInt 11)]),
      (''tether'', JObj [(''usd'', JInt 1)]),
      (''ripple'', JObj [(''usd_24h_change'', JNum (Num 2))])]"
  let ?api = "\<lambda>q :: request. Response
     \<lparr>status_code = 200, http_error_msg = [], body = Json (JObj ?items)\<rparr>"
  let ?cleaned = "[(''bitcoin'', \<lparr>price = Num 65000.5, change_24h = Num 11\<rparr>),
          (''tether'', \<lparr>price = Num 1, change_24h = Num 0\<rparr>)]"
  have a: "?ids \<noteq> []" by simp
  have b: "try_block (?api (api_request ?ids)) = Inr (JObj ?items)"
    by (simp add: try_block_def raise_for_status_def)
  have c: "distinct (map fst ?items)" by simp
  have x: "expected_entry (JObj [(''usd'', JNum (Num 65000.5)), (''usd_24h_change'', JInt 11)])"
    "expected_entry (JObj [(''usd'', JInt 1)])"
    "expected_entry (JObj [(''usd_24h_change'', JNum (Num 2))])"
    by (simp_all add: expected_entry_def is_number_def FIAT_CURRENCY_def)
  have r: "returned (fetch_live_prices (\<lambda>s. None) ?api ?ids) = Inr ?cleaned"
    by (simp add: fetch_live_prices_def try_block_def raise_for_status_def Let_def
          clean_item_def dict_get_def FIAT_CURRENCY_def float_of_int_small)
  have i: "(''ripple'', JObj [(''usd_24h_change'', JNum (Num 2))]) \<in> set ?items" by simp
  have p: "price_field (JObj [(''usd_24h_change'', JNum (Num 2))]) = None"
    by (simp add: FIAT_CURRENCY_def)
  from fetch_cleans_response [OF a b c, where parse = "\<lambda>s. None"] r i p
  have "map_of ?cleaned ''ripple'' = None"
    by fastforce
  with a b c x r p show ?thesis
    by (simp add: FIAT_CURRENCY_def)
qed

text \<open>
  C6 as stated fails where \<open>float\<close> raises: a successful response need not give a
  cleaned result at all. An integer price of \<open>10 ^ 400\<close> is beyond the doubles,
  \<open>float\<close> raises \<open>OverflowError\<close>, and the exception leaves
  \<open>fetch_live_prices\<close>.
\<close>

theorem fetch_overflow_counterexample:
  "try_block (Response
     \<lparr>status_code = 200, http_error_msg = [],
      body = Json (JObj [(''bitcoin'', JObj [(''usd'', JInt (10 ^ 400))])])\<rparr>) =
     Inr (JObj [(''bitcoin'', JObj [(''usd'', JInt (10 ^ 400))])]) \<and>
   returned (fetch_live_prices (\<lambda>s. None)
     (\<lambda>q. Response
        \<lparr>status_code = 200, http_error_msg = [],
         body = Json (JObj [(''bitcoin'', JObj [(''usd'', JInt (10 ^ 400))])])\<rparr>)
     [''bitcoin'']) = Inl OverflowError"
proof -
  have "(2::int) ^ 1024 \<le> \<bar>10 ^ 400\<bar>" by simp
  then have o: "float_of_int (10 ^ 400) = Inl OverflowError"
    by (rule float_of_int_overflow)
  show ?thesis
    by (simp add: fetch_live_prices_def try_block_def raise_for_status_def Let_def
          clean_item_def dict_get_def FIAT_CURRENCY_def o del: power_numeral)
qed

text \<open>
  Nor does the fetch return where an item with a price has the 24h change \<open>null\<close>:
  \<open>info.get\<close> finds the key, so its default 0.0 is not used, and \<open>float(None)\<close>
  raises \<open>TypeError\<close>. A price that is \<open>null\<close> is passed over instead.
\<close>

lemma fetch_null_change_raises:
  "returned (fetch_live_prices (\<lambda>s. None)
     (\<lambda>q. Response
        \<lparr>status_code = 200, http_error_msg = [],
         body = Json (JObj
           [(''bitcoin'', JObj [(''usd'', JNum (Num 1)), (''usd_24h_change'', JNull)])])\<rparr>)
     [''bitcoin'']) = Inl TypeError \<and>
   returned (fetch_live_prices (\<lambda>s. None)
     (\<lambda>q. Response
        \<lparr>status_code = 200, http_error_msg = [],
         body = Json (JObj
           [(''bitcoin'', JObj [(''usd'', JNull), (''usd_24h_change'', JNum (Num 1))])])\<rparr>)
     [''bitcoin'']) = Inr []"
  by (simp add: fetch_live_prices_def try_block_def raise_for_status_def Let_def
        clean_item_def dict_get_def FIAT_CURRENCY_def)

end
